theory Spec2Isabelle
  imports Complex_Main "HOL-Library.Multiset"
begin

section \<open>Text: Python strings as lists of code points\<close>

text \<open>
  A Python \<open>str\<close> is a sequence of Unicode code points, so a text is a list of natural
  numbers. The white-space table (\<open>str.isspace\<close>, the class of white space of the
  \<open>re\<close> module) is complete. The digit and word classes that the patterns of the field
  locators use, and case folding, are written out for U+0000 to U+00FF and for the
  characters the sources name; there every other code point is a symbol. The reference
  normaliser, which keeps or deletes characters by their class, reads the classes above
  U+00FF from a Unicode database given as a parameter (section "Record assembler").
\<close>

type_synonym utext = "nat list"

definition str :: "string \<Rightarrow> utext" where
  "str s = map of_char s"

definition is_space :: "nat \<Rightarrow> bool" where
  "is_space c \<longleftrightarrow>
     (9 \<le> c \<and> c \<le> 13) \<or> (28 \<le> c \<and> c \<le> 32) \<or> c = 133 \<or> c = 160 \<or> c = 5760 \<or>
     (8192 \<le> c \<and> c \<le> 8202) \<or> c = 8232 \<or> c = 8233 \<or> c = 8239 \<or> c = 8287 \<or> c = 12288"

definition is_digit :: "nat \<Rightarrow> bool" where
  "is_digit c \<longleftrightarrow> 48 \<le> c \<and> c \<le> 57"

definition is_word :: "nat \<Rightarrow> bool" where
  "is_word c \<longleftrightarrow>
     is_digit c \<or> (65 \<le> c \<and> c \<le> 90) \<or> c = 95 \<or> (97 \<le> c \<and> c \<le> 122) \<or>
     c = 170 \<or> c = 178 \<or> c = 179 \<or> c = 181 \<or> c = 185 \<or> c = 186 \<or>
     (188 \<le> c \<and> c \<le> 190) \<or> (192 \<le> c \<and> c \<le> 214) \<or> (216 \<le> c \<and> c \<le> 246) \<or>
     (248 \<le> c \<and> c \<le> 255)"

text \<open>Case folding as \<open>re.IGNORECASE\<close> applies it to the letters of the patterns.\<close>

definition fold_case :: "nat \<Rightarrow> nat" where
  "fold_case c =
     (if 65 \<le> c \<and> c \<le> 90 then c + 32
      else if 192 \<le> c \<and> c \<le> 222 \<and> c \<noteq> 215 then c + 32
      else if c = 304 \<or> c = 305 then 105
      else if c = 383 then 115
      else if c = 8490 then 107
      else c)"

section \<open>Regular expressions with Python's backtracking order\<close>

datatype re =
    Eps
  | Sat "nat \<Rightarrow> bool"
  | Seq re re
  | Alt re re
  | Star re
  | StarL re
  | Group nat re
  | WordB
  | Bol
  | Eol
  | Look re

record mstate =
  prev :: "nat option"
  rest :: utext
  grps :: "nat \<Rightarrow> utext option"

definition word_opt :: "nat option \<Rightarrow> bool" where
  "word_opt p = (case p of None \<Rightarrow> False | Some c \<Rightarrow> is_word c)"

definition at_boundary :: "mstate \<Rightarrow> bool" where
  "at_boundary s \<longleftrightarrow>
     word_opt (prev s) \<noteq> (case rest s of [] \<Rightarrow> False | c # _ \<Rightarrow> is_word c)"

text \<open>
  \<open>run r s\<close> lists the states in which a match of \<open>r\<close> started in \<open>s\<close> can end, in the
  order in which a backtracking matcher tries them: the first alternative before the
  second, the longest repetition first for a greedy star and the shortest first for a
  lazy one. The head of the list is the match Python reports.
\<close>

function run :: "re \<Rightarrow> mstate \<Rightarrow> mstate list" where
  "run Eps s = [s]"
| "run (Sat p) s =
     (case rest s of
        [] \<Rightarrow> []
      | c # cs \<Rightarrow> if p c then [s\<lparr>prev := Some c, rest := cs\<rparr>] else [])"
| "run (Seq a b) s = concat (map (run b) (run a s))"
| "run (Alt a b) s = run a s @ run b s"
| "run (Star a) s =
     concat (map (\<lambda>s'. if length (rest s') < length (rest s) then run (Star a) s' else [])
                 (run a s)) @ [s]"
| "run (StarL a) s =
     s # concat (map (\<lambda>s'. if length (rest s') < length (rest s) then run (StarL a) s' else [])
                     (run a s))"
| "run (Group i a) s =
     map (\<lambda>s'. s'\<lparr>grps := (grps s')(i \<mapsto> take (length (rest s) - length (rest s')) (rest s))\<rparr>)
         (run a s)"
| "run WordB s = (if at_boundary s then [s] else [])"
| "run Bol s = (if prev s = None then [s] else [])"
| "run Eol s = (if rest s = [] \<or> rest s = [10] then [s] else [])"
| "run (Look a) s = (if run a s = [] then [] else [s])"
  by pat_completeness auto
termination
  by (relation "inv_image (less_than <*lex*> less_than) (\<lambda>(r, s). (size r, length (rest s)))")
     auto

type_synonym rmatch = "nat \<Rightarrow> utext option"

text \<open>\<open>re.search\<close>: the first match at the leftmost position that has one; group 0 is the
  whole match.\<close>

fun search_from :: "re \<Rightarrow> nat option \<Rightarrow> utext \<Rightarrow> rmatch option" where
  "search_from r p t =
     (case run (Group 0 r) \<lparr>prev = p, rest = t, grps = Map.empty\<rparr> of
        s' # _ \<Rightarrow> Some (grps s')
      | [] \<Rightarrow> (case t of [] \<Rightarrow> None | c # cs \<Rightarrow> search_from r (Some c) cs))"

definition re_search :: "re \<Rightarrow> utext \<Rightarrow> rmatch option" where
  "re_search r t = search_from r None t"

text \<open>\<open>re.sub\<close> with a function for the replacement: the matches are found left to
  right, each search starting where the previous match ended. None of the patterns used
  below matches the empty text; an empty match inserts the replacement and moves on by
  one character.\<close>

function re_sub_from :: "re \<Rightarrow> (rmatch \<Rightarrow> utext) \<Rightarrow> nat option \<Rightarrow> utext \<Rightarrow> utext" where
  "re_sub_from r f p t =
     (case run (Group 0 r) \<lparr>prev = p, rest = t, grps = Map.empty\<rparr> of
        s' # _ \<Rightarrow>
          if length (rest s') < length t then f (grps s') @ re_sub_from r f (prev s') (rest s')
          else (case t of
                  [] \<Rightarrow> f (grps s')
                | c # cs \<Rightarrow> f (grps s') @ c # re_sub_from r f (Some c) cs)
      | [] \<Rightarrow> (case t of [] \<Rightarrow> [] | c # cs \<Rightarrow> c # re_sub_from r f (Some c) cs))"
  by pat_completeness auto
termination
  by (relation "measure (\<lambda>(r, f, p, t). length t)") auto

definition re_sub :: "re \<Rightarrow> utext \<Rightarrow> utext \<Rightarrow> utext" where
  "re_sub r repl t = re_sub_from r (\<lambda>_. repl) None t"

subsection \<open>Shorthands for writing the patterns of the sources\<close>

definition chr :: "nat \<Rightarrow> re" where
  "chr c = Sat (\<lambda>x. x = c)"

definition chrI :: "nat \<Rightarrow> re" where
  "chrI c = Sat (\<lambda>x. fold_case x = fold_case c)"

fun seqs :: "re list \<Rightarrow> re" where
  "seqs [] = Eps"
| "seqs [r] = r"
| "seqs (r # rs) = Seq r (seqs rs)"

fun alts :: "re list \<Rightarrow> re" where
  "alts [] = Sat (\<lambda>_. False)"
| "alts [r] = r"
| "alts (r # rs) = Alt r (alts rs)"

definition lit :: "utext \<Rightarrow> re" where
  "lit w = seqs (map chr w)"

definition litI :: "utext \<Rightarrow> re" where
  "litI w = seqs (map chrI w)"

definition ropt :: "re \<Rightarrow> re" where
  "ropt r = Alt r Eps"

definition rplus :: "re \<Rightarrow> re" where
  "rplus r = Seq r (Star r)"

definition rplusL :: "re \<Rightarrow> re" where
  "rplusL r = Seq r (StarL r)"

definition ws :: re where
  "ws = Star (Sat is_space)"

definition digits :: re where
  "digits = rplus (Sat is_digit)"


text \<open>A decimal number (digits, then optionally a point or comma and digits) and the
  separator of a range (a hyphen or the letter U+00E0).\<close>

definition num :: re where
  "num = Seq digits (ropt (Seq (Sat (\<lambda>c. c = 46 \<or> c = 44)) digits))"

definition dash :: re where
  "dash = Alt (chr 45) (chrI 224)"

section \<open>Python string and number primitives\<close>

definition strip :: "utext \<Rightarrow> utext" where
  "strip s = rev (dropWhile is_space (rev (dropWhile is_space s)))"

definition strip_chars :: "nat list \<Rightarrow> utext \<Rightarrow> utext" where
  "strip_chars cs s =
     rev (dropWhile (\<lambda>c. c \<in> set cs) (rev (dropWhile (\<lambda>c. c \<in> set cs) s)))"

definition replace_char :: "nat \<Rightarrow> nat \<Rightarrow> utext \<Rightarrow> utext" where
  "replace_char a b s = map (\<lambda>c. if c = a then b else c) s"

definition remove_char :: "nat \<Rightarrow> utext \<Rightarrow> utext" where
  "remove_char a s = filter (\<lambda>c. c \<noteq> a) s"

definition digits_val :: "utext \<Rightarrow> nat" where
  "digits_val ds = foldl (\<lambda>a c. 10 * a + (c - 48)) 0 ds"

definition decimal_val :: "utext \<Rightarrow> utext \<Rightarrow> rat" where
  "decimal_val ip fp = of_nat (digits_val ip) + of_nat (digits_val fp) / 10 ^ length fp"

text \<open>
  \<open>float(s)\<close> on a decimal literal. Python floats are modelled by the rational numbers
  they stand for, so the arithmetic below is exact. The arguments the sources pass are
  built from digits, separators and white space only; the other spellings \<open>float\<close>
  accepts (exponents, \<open>inf\<close>, \<open>nan\<close>, underscores) are rejected here.
  \<open>None\<close> is the \<open>ValueError\<close>.
\<close>

definition unsigned_float :: "utext \<Rightarrow> rat option" where
  "unsigned_float v =
     (let ip = takeWhile is_digit v in
      case dropWhile is_digit v of
        [] \<Rightarrow> if ip = [] then None else Some (decimal_val ip [])
      | c # fp \<Rightarrow>
          if c = 46 \<and> list_all is_digit fp \<and> (ip \<noteq> [] \<or> fp \<noteq> [])
          then Some (decimal_val ip fp) else None)"

definition py_float :: "utext \<Rightarrow> rat option" where
  "py_float s =
     (case strip s of
        [] \<Rightarrow> None
      | c # cs \<Rightarrow>
          if c = 45 then map_option uminus (unsigned_float cs)
          else if c = 43 then unsigned_float cs
          else unsigned_float (c # cs))"

text \<open>\<open>round(x, 2)\<close>: to the nearest hundredth, a tie to the even one.\<close>

definition round_half_even :: "rat \<Rightarrow> int" where
  "round_half_even x =
     (let f = \<lfloor>x\<rfloor>; d = x - of_int f in
      if d < 1 / 2 then f else if 1 / 2 < d then f + 1 else if even f then f else f + 1)"

definition py_round2 :: "rat \<Rightarrow> rat" where
  "py_round2 x = of_int (round_half_even (x * 100)) / 100"


section \<open>Numeric normalizer (\<open>extract_numeric_fields\<close> of cri\_benimallal.py)\<close>

subsection \<open>The patterns, all compiled with \<open>re.IGNORECASE\<close>\<close>

text \<open>The letters of a keyword with optional white space between them, between word
  boundaries.\<close>

fun spread :: "re list \<Rightarrow> re list" where
  "spread [] = []"
| "spread [r] = [r]"
| "spread (r # rs) = r # ws # spread rs"

definition spaced :: "string \<Rightarrow> re" where
  "spaced w = seqs (WordB # spread (map chrI (str w)) @ [WordB])"

definition RE_SPACED_MDH :: re where
  "RE_SPACED_MDH =
     seqs [WordB, chrI 77, ws, chrI 68, ws, chrI 72, ws, ropt (chrI 83), WordB]"

definition mn_qualifier :: re where
  "mn_qualifier = ropt (Alt (Seq (litI (str ''Mn'')) (ropt (chrI 115))) (litI (str ''Mn'')))"

definition mdh_unit :: re where
  "mdh_unit = seqs [litI (str ''MDH''), ropt (chrI 83), WordB]"

definition kdhs_unit :: re where
  "kdhs_unit = seqs [litI (str ''KDH''), ropt (chrI 83), WordB]"

definition dhs_unit :: re where
  "dhs_unit = seqs [litI (str ''DH''), ropt (chrI 83)]"

definition invest_label :: re where
  "invest_label =
     Alt (litI (str ''INVESTISSEMENT''))
         (seqs [chrI 68, Sat (\<lambda>c. c = 39 \<or> c = 8217), litI (str ''INVESTISSEMENT'')])"

definition colon_or_dash :: re where
  "colon_or_dash = ropt (Sat (\<lambda>c. c = 58 \<or> c = 45))"

definition amount_char :: "nat \<Rightarrow> bool" where
  "amount_char c \<longleftrightarrow> is_digit c \<or> is_space c \<or> c = 46 \<or> c = 44"

definition RE_MDH_RANGE :: re where
  "RE_MDH_RANGE =
     seqs [Group 1 num, ws, dash, ws, Group 2 num, ws, mn_qualifier, ws, mdh_unit]"

definition RE_KDHS_RANGE :: re where
  "RE_KDHS_RANGE = seqs [Group 1 num, ws, dash, ws, Group 2 num, ws, kdhs_unit]"

definition RE_KDHS_SINGLE :: re where
  "RE_KDHS_SINGLE = seqs [WordB, Group 1 num, ws, kdhs_unit]"

definition RE_MDH_LABELLED :: re where
  "RE_MDH_LABELLED =
     seqs [invest_label, ws, colon_or_dash, ws, Group 1 num, ws, mn_qualifier, ws, mdh_unit]"

definition RE_MDH_SINGLE :: re where
  "RE_MDH_SINGLE = seqs [Group 1 num, ws, mn_qualifier, ws, mdh_unit]"

definition RE_DH_CA :: re where
  "RE_DH_CA =
     seqs [chr 45, ws, Group 1 (rplus (Sat amount_char)), ws, dhs_unit, ws, chr 45, ws,
           litI (str ''CA''), WordB]"

definition RE_DH_LABELLED :: re where
  "RE_DH_LABELLED =
     seqs [invest_label, WordB, StarL (Sat (\<lambda>c. c \<noteq> 10)),
           Group 1 (rplus (Sat amount_char)), ws, dhs_unit, WordB]"

definition RE_DH_FIRST :: re where
  "RE_DH_FIRST =
     seqs [WordB,
           Group 1 (seqs [Sat amount_char, Sat amount_char, Sat amount_char,
                          Star (Sat amount_char)]),
           ws, dhs_unit, WordB]"

definition sup_label :: re where
  "sup_label = seqs [litI (str ''Sup''), ws, colon_or_dash, ws]"

definition area_num :: re where
  "area_num = Seq digits (ropt (Seq (Sat (\<lambda>c. is_space c \<or> c = 46 \<or> c = 44)) digits))"

definition m2_unit :: re where
  "m2_unit = seqs [ws, chrI 109, ws, Sat (\<lambda>c. c = 178 \<or> c = 50)]"

definition RE_SUP_RANGE :: re where
  "RE_SUP_RANGE =
     seqs [sup_label, Group 1 area_num, ropt m2_unit, ws, dash, ws,
           Group 2 area_num, ropt m2_unit, WordB]"

definition RE_SUP_SINGLE :: re where
  "RE_SUP_SINGLE = seqs [sup_label, Group 1 area_num, m2_unit, WordB]"

definition RE_SUP_HA :: re where
  "RE_SUP_HA =
     seqs [sup_label, Group 1 num, ropt (seqs [ws, dash, ws, Group 2 num]), ws,
           litI (str ''Ha''), WordB]"

definition tri_label :: re where
  "tri_label = seqs [litI (str ''TRI''), ws, ropt (litI (str ''moyen'')), ws, colon_or_dash, ws]"

definition RE_TRI_RANGE :: re where
  "RE_TRI_RANGE =
     seqs [tri_label, Group 1 num, ws, dash, ws, Group 2 num, ws, ropt (chr 37)]"

definition RE_TRI_SINGLE :: re where
  "RE_TRI_SINGLE = seqs [tri_label, Group 1 num, ws, ropt (chr 37)]"

definition years_tail :: re where
  "years_tail =
     seqs [ws, colon_or_dash, ws, Group 1 num, ws, ropt dash, ws, ropt (Group 2 num), ws,
           litI (str ''ans'')]"

definition RE_PBP :: re where
  "RE_PBP = Seq (litI (str ''PBP'')) years_tail"

definition RE_ROI_YEARS :: re where
  "RE_ROI_YEARS = seqs [WordB, litI (str ''ROI''), WordB, years_tail]"

subsection \<open>\<open>_norm\<close>: the pass applied before any numeric pattern\<close>

definition squeeze_match :: "rmatch \<Rightarrow> utext" where
  "squeeze_match m = (case m 0 of None \<Rightarrow> [] | Some w \<Rightarrow> re_sub (rplus (Sat is_space)) [] w)"

definition norm_text :: "utext \<Rightarrow> utext" where
  "norm_text s0 =
     (if s0 = [] then []
      else
        re_sub (rplus (Sat is_space)) [32]
       (re_sub (seqs [WordB, litI (str ''PB0P''), WordB]) (str ''PBP'')
       (re_sub (spaced ''PB0P'') (str ''PBP'')
       (re_sub (spaced ''KDHS'') (str ''KDHS'')
       (re_sub (spaced ''DH'') (str ''DH'')
       (re_sub (spaced ''DHS'') (str ''DHS'')
       (re_sub (spaced ''CA'') (str ''CA'')
       (re_sub (spaced ''TRI'') (str ''TRI'')
       (re_sub (spaced ''PBP'') (str ''PBP'')
       (re_sub_from RE_SPACED_MDH squeeze_match None
       (replace_char 8722 45 (replace_char 8212 45 (replace_char 8211 45
       (replace_char 65533 45
       (replace_char 8226 32 (replace_char 61692 32 (replace_char 160 32 s0)))))))))))))))))"


subsection \<open>Reading the captured numbers\<close>

text \<open>\<open>float(m.group(i).replace(",", "."))\<close>; a group that did not take part in the
  match is \<open>None\<close> in Python and the call on it raises, which the surrounding
  \<open>try\<close> swallows like the \<open>ValueError\<close> of \<open>float\<close>.\<close>

definition comma_float :: "utext option \<Rightarrow> rat option" where
  "comma_float g = (case g of None \<Rightarrow> None | Some w \<Rightarrow> py_float (replace_char 44 46 w))"

definition area_float :: "utext option \<Rightarrow> rat option" where
  "area_float g =
     (case g of None \<Rightarrow> None | Some w \<Rightarrow> py_float (replace_char 44 46 (remove_char 32 w)))"

definition dh_float :: "utext option \<Rightarrow> rat option" where
  "dh_float g =
     (case g of
        None \<Rightarrow> None
      | Some w \<Rightarrow> py_float (replace_char 44 46 (remove_char 160 (remove_char 32 w))))"

definition first_search :: "re list \<Rightarrow> utext \<Rightarrow> rmatch option" where
  "first_search rs t = foldr (\<lambda>r acc. case re_search r t of Some m \<Rightarrow> Some m | None \<Rightarrow> acc) rs None"

subsection \<open>Investment amount (lines 341 to 405)\<close>

text \<open>The variable \<open>est_mad\<close> is threaded through the three blocks of the source: thousands
  of dirhams, millions of dirhams, plain dirhams.\<close>

definition kdhs_block :: "utext \<Rightarrow> rat option" where
  "kdhs_block t =
     (case re_search RE_KDHS_RANGE t of
        Some m \<Rightarrow>
          (case (comma_float (m 1), comma_float (m 2)) of
             (Some a, Some b) \<Rightarrow> Some (((a + b) / 2) * 1000)
           | _ \<Rightarrow> None)
      | None \<Rightarrow>
          (case re_search RE_KDHS_SINGLE t of
             Some m \<Rightarrow> (case comma_float (m 1) of Some a \<Rightarrow> Some (a * 1000) | None \<Rightarrow> None)
           | None \<Rightarrow> None))"

definition mdh_block :: "utext \<Rightarrow> rat option \<Rightarrow> rat option" where
  "mdh_block t est_mad =
     (case re_search RE_MDH_RANGE t of
        Some m_inv \<Rightarrow>
          (case (comma_float (m_inv 1), comma_float (m_inv 2)) of
             (Some low, Some high) \<Rightarrow> Some (((low + high) / 2) * 1000000)
           | _ \<Rightarrow> est_mad)
      | None \<Rightarrow>
          (case first_search [RE_MDH_LABELLED, RE_MDH_SINGLE] t of
             Some m_inv_single \<Rightarrow>
               if est_mad = None
               then (case comma_float (m_inv_single 1) of
                       Some val \<Rightarrow> Some (val * 1000000)
                     | None \<Rightarrow> est_mad)
               else est_mad
           | None \<Rightarrow> est_mad))"

definition dh_block :: "utext \<Rightarrow> rat option \<Rightarrow> rat option" where
  "dh_block t est_mad =
     (if est_mad = None
      then (case first_search [RE_DH_CA, RE_DH_LABELLED, RE_DH_FIRST] t of
              Some m_dh \<Rightarrow> dh_float (m_dh 1)
            | None \<Rightarrow> None)
      else est_mad)"

definition investment_amount :: "utext \<Rightarrow> rat option" where
  "investment_amount t = dh_block t (mdh_block t (kdhs_block t))"

subsection \<open>Surface (lines 407 to 449)\<close>

definition surface_m2 :: "utext \<Rightarrow> rat option" where
  "surface_m2 t =
     (case re_search RE_SUP_RANGE t of
        Some m_surf_range \<Rightarrow>
          (case (area_float (m_surf_range 1), area_float (m_surf_range 2)) of
             (Some s1, Some s2) \<Rightarrow> Some ((s1 + s2) / 2)
           | _ \<Rightarrow> None)
      | None \<Rightarrow>
          (case re_search RE_SUP_SINGLE t of
             Some m_surf_single \<Rightarrow> area_float (m_surf_single 1)
           | None \<Rightarrow> None))"

definition surface_ha :: "utext \<Rightarrow> rat option \<Rightarrow> rat option" where
  "surface_ha t area =
     (if area = None
      then (case re_search RE_SUP_HA t of
              Some m_ha \<Rightarrow>
                (case comma_float (m_ha 1) of
                   None \<Rightarrow> None
                 | Some h1 \<Rightarrow>
                     (case m_ha 2 of
                        None \<Rightarrow> Some (h1 * 10000)
                      | Some w \<Rightarrow>
                          if w = [] then Some (h1 * 10000)
                          else (case comma_float (Some w) of
                                  None \<Rightarrow> None
                                | Some h2 \<Rightarrow> Some (((h1 + h2) / 2) * 10000))))
            | None \<Rightarrow> None)
      else area)"

definition land_area :: "utext \<Rightarrow> rat option" where
  "land_area t = surface_ha t (surface_m2 t)"

subsection \<open>Rate of return and payback (lines 451 to 515)\<close>

text \<open>The three \<open>try\<close> blocks for TRI, PBP and "ROI ... ans" have one shape: the first
  group, averaged with the second when the second took part in the match.\<close>

definition value_or_mean :: "rmatch \<Rightarrow> rat option" where
  "value_or_mean m =
     (case comma_float (m 1) of
        None \<Rightarrow> None
      | Some v1 \<Rightarrow>
          (case m 2 of
             None \<Rightarrow> Some v1
           | Some w \<Rightarrow>
               if w = [] then Some v1
               else (case comma_float (Some w) of
                       None \<Rightarrow> None
                     | Some v2 \<Rightarrow> Some ((v1 + v2) / 2))))"

definition roi_from_text :: "utext \<Rightarrow> rat option" where
  "roi_from_text t =
     (case first_search [RE_TRI_RANGE, RE_TRI_SINGLE] t of
        Some m_roi \<Rightarrow> value_or_mean m_roi
      | None \<Rightarrow> None)"

definition payback_from_text :: "utext \<Rightarrow> rat option" where
  "payback_from_text t =
     (case (case re_search RE_PBP t of Some m_pbp \<Rightarrow> value_or_mean m_pbp | None \<Rightarrow> None) of
        Some p \<Rightarrow> Some p
      | None \<Rightarrow>
          (case re_search RE_ROI_YEARS t of
             Some m_roi_years \<Rightarrow> value_or_mean m_roi_years
           | None \<Rightarrow> None))"

text \<open>The two "deterministic fills", in the order of the source: the rate from the payback
  first, then the payback from the rate.\<close>

definition fill_roi :: "rat option \<Rightarrow> rat option \<Rightarrow> rat option" where
  "fill_roi roi payback =
     (case (roi, payback) of
        (None, Some pb) \<Rightarrow> if 0 < pb then Some (py_round2 (100 / pb)) else None
      | _ \<Rightarrow> roi)"

definition fill_payback :: "rat option \<Rightarrow> rat option \<Rightarrow> rat option" where
  "fill_payback roi payback =
     (case (payback, roi) of
        (None, Some tri) \<Rightarrow> if 0 < tri \<and> tri \<le> 100 then Some (py_round2 (100 / tri)) else None
      | _ \<Rightarrow> payback)"

record numeric_fields =
  estimated_investment_mad :: "rat option"
  required_land_area_m2 :: "rat option"
  roi_estimated :: "rat option"
  payback_period_years :: "rat option"

definition cross_fill :: "rat option \<Rightarrow> rat option \<Rightarrow> rat option \<times> rat option" where
  "cross_fill roi payback = (fill_roi roi payback, fill_payback (fill_roi roi payback) payback)"

definition numeric_of_norm :: "utext \<Rightarrow> numeric_fields" where
  "numeric_of_norm t =
     (case cross_fill (roi_from_text t) (payback_from_text t) of
        (roi, payback) \<Rightarrow>
          \<lparr>estimated_investment_mad = investment_amount t,
           required_land_area_m2 = land_area t,
           roi_estimated = roi,
           payback_period_years = payback\<rparr>)"

definition extract_numeric_fields :: "utext \<Rightarrow> numeric_fields" where
  "extract_numeric_fields txt = numeric_of_norm (norm_text txt)"


section \<open>Field locator: title and sector\<close>

definition clean_text :: "utext \<Rightarrow> utext" where
  "clean_text t = (if t = [] then [] else strip (re_sub (rplus (Sat is_space)) [32] t))"

text \<open>\<open>str.split()\<close> without argument: the maximal runs of characters that are not white
  space.\<close>

fun split_acc :: "utext \<Rightarrow> utext \<Rightarrow> utext list" where
  "split_acc cur [] = (if cur = [] then [] else [cur])"
| "split_acc cur (c # cs) =
     (if is_space c then (if cur = [] then split_acc [] cs else cur # split_acc [] cs)
      else split_acc (cur @ [c]) cs)"

definition py_split :: "utext \<Rightarrow> utext list" where
  "py_split t = split_acc [] t"

text \<open>\<open>str.split(d)\<close> with a one-character separator keeps the empty pieces.\<close>

fun split_on_acc :: "nat \<Rightarrow> utext \<Rightarrow> utext \<Rightarrow> utext list" where
  "split_on_acc d cur [] = [cur]"
| "split_on_acc d cur (c # cs) =
     (if c = d then cur # split_on_acc d [] cs else split_on_acc d (cur @ [c]) cs)"

definition split_on :: "nat \<Rightarrow> utext \<Rightarrow> utext list" where
  "split_on d t = split_on_acc d [] t"

fun join_with :: "utext \<Rightarrow> utext list \<Rightarrow> utext" where
  "join_with sep [] = []"
| "join_with sep [w] = w"
| "join_with sep (w # v # vs) = w @ sep @ join_with sep (v # vs)"

fun starts_with :: "utext \<Rightarrow> utext \<Rightarrow> bool" where
  "starts_with [] t = True"
| "starts_with (a # as) [] = False"
| "starts_with (a # as) (c # cs) = (a = c \<and> starts_with as cs)"

fun contains :: "utext \<Rightarrow> utext \<Rightarrow> bool" where
  "contains sub [] = (sub = [])"
| "contains sub (c # cs) = (starts_with sub (c # cs) \<or> contains sub cs)"

text \<open>\<open>str.replace(a, b)\<close> for a non-empty \<open>a\<close>.\<close>

function replace_sub :: "utext \<Rightarrow> utext \<Rightarrow> utext \<Rightarrow> utext" where
  "replace_sub a b t =
     (case t of
        [] \<Rightarrow> []
      | c # cs \<Rightarrow>
          if a \<noteq> [] \<and> starts_with a t then b @ replace_sub a b (drop (length a) t)
          else c # replace_sub a b cs)"
  by pat_completeness auto
termination
  by (relation "measure (\<lambda>(a, b, t). length t)") auto

definition dedupe_repeated_title :: "utext \<Rightarrow> utext" where
  "dedupe_repeated_title title =
     (let t = clean_text title in
      if t = [] then t
      else
        let wds = py_split t; half = length wds div 2 in
        if 6 \<le> length wds \<and> length wds mod 2 = 0 \<and> take half wds = drop half wds
        then join_with [32] (take half wds)
        else t)"

text \<open>The loop over the lines of the page: the line after the first line that holds the
  project-number marker, when it is long enough and is not the sector label.\<close>

definition has_marker :: "utext \<Rightarrow> bool" where
  "has_marker line \<longleftrightarrow>
     contains (str ''Projet N'' @ [176]) line \<or> contains (str ''Projet N'') line"

fun title_after_marker :: "utext list \<Rightarrow> utext option" where
  "title_after_marker [] = None"
| "title_after_marker [line] = None"
| "title_after_marker (line # nxt # others) =
     (if has_marker line \<and> 3 < length (strip nxt) \<and> \<not> contains (str ''Secteur'') (strip nxt)
      then Some (dedupe_repeated_title (strip nxt))
      else title_after_marker (nxt # others))"

text \<open>The fall-back pattern, compiled with \<open>re.IGNORECASE | re.DOTALL\<close>.\<close>

definition RE_TITLE :: re where
  "RE_TITLE =
     seqs [litI (str ''Projet''), ws, chrI 78, chr 176, ws, chr 58, ws,
           ropt (Seq (litI (str ''PR'')) digits), ws, chr 10,
           Group 1 (rplusL (Sat (\<lambda>_. True))),
           Look (Alt (chr 10) (litI (str ''Secteur'')))]"

definition extract_project_title :: "utext \<Rightarrow> utext \<Rightarrow> utext" where
  "extract_project_title txt filename =
     (case title_after_marker (split_on 10 txt) of
        Some t \<Rightarrow> t
      | None \<Rightarrow>
          (case re_search RE_TITLE txt of
             Some m_title \<Rightarrow> dedupe_repeated_title (case m_title 1 of Some w \<Rightarrow> w | None \<Rightarrow> [])
           | None \<Rightarrow> replace_char 45 32 (replace_sub (str ''.pdf'') [] filename)))"

definition sector_label :: re where
  "sector_label = seqs [litI (str ''Secteur''), ws, litI (233 # str ''conomique'')]"

definition filieres :: re where
  "filieres = litI (str ''Fili'' @ 232 # str ''res'')"

definition sector_stop :: "re list" where
  "sector_stop = [filieres, litI (str ''ACTIVIT'' @ [201]), litI (str ''AnalySe'')]"

definition RE_SECTOR_LEFT :: re where
  "RE_SECTOR_LEFT =
     seqs [sector_label, ws, chr 58, ws, Group 1 (rplusL (Sat (\<lambda>_. True))),
           Look (alts (sector_stop @ [Eol]))]"

definition RE_SECTOR_FULL :: re where
  "RE_SECTOR_FULL =
     seqs [sector_label, ws, chr 58, ws, Group 1 (rplusL (Sat (\<lambda>_. True))),
           Look (alts sector_stop)]"

definition RE_LABEL_PREFIX :: re where
  "RE_LABEL_PREFIX =
     seqs [Bol,
           Alt sector_label (seqs [filieres, ws, litI (str ''de''), ws, litI (str ''production'')]),
           ws, chr 58, ws]"

definition strip_label_prefix :: "utext \<Rightarrow> utext" where
  "strip_label_prefix s = strip (re_sub RE_LABEL_PREFIX [] (clean_text s))"

definition extract_sector_from_layout :: "utext \<Rightarrow> utext \<Rightarrow> utext" where
  "extract_sector_from_layout left full =
     (case re_search RE_SECTOR_LEFT left of
        Some m_sector \<Rightarrow> strip_label_prefix (case m_sector 1 of Some w \<Rightarrow> w | None \<Rightarrow> [])
      | None \<Rightarrow>
          (case re_search RE_SECTOR_FULL full of
             Some m_sector_full \<Rightarrow>
               strip_label_prefix (case m_sector_full 1 of Some w \<Rightarrow> w | None \<Rightarrow> [])
           | None \<Rightarrow> str ''CRI''))"


section \<open>Record assembler\<close>

subsection \<open>\<open>normalize_for_reference\<close>\<close>

text \<open>
  \<open>normalize_for_reference\<close> reads four tables of the Unicode character database: the
  word class of \<open>re\<close>, canonical decomposition (\<open>unicodedata.normalize("NFD", s)\<close>),
  the general category Mn and \<open>str.upper\<close>. For U+0000 to U+00FF, and for the block of
  combining diacritical marks, the tables are written out below as Python has them; for all
  other code points they are the fields of the parameter \<open>ucd\<close>, about which nothing is
  assumed.
\<close>

record unicode_db =
  u_word :: "nat \<Rightarrow> bool"
  u_nfd :: "utext \<Rightarrow> utext"
  u_Mn :: "nat \<Rightarrow> bool"
  u_upper :: "nat \<Rightarrow> utext"

text \<open>Canonical decomposition (NFD) of the Latin-1 letters: the code point, its base
  letter and its combining mark.\<close>

definition nfd_table :: "(nat \<times> nat \<times> nat) list" where
  "nfd_table =
     [(192, 65, 768), (193, 65, 769), (194, 65, 770), (195, 65, 771), (196, 65, 776),
      (197, 65, 778), (199, 67, 807), (200, 69, 768), (201, 69, 769), (202, 69, 770),
      (203, 69, 776), (204, 73, 768), (205, 73, 769), (206, 73, 770), (207, 73, 776),
      (209, 78, 771), (210, 79, 768), (211, 79, 769), (212, 79, 770), (213, 79, 771),
      (214, 79, 776), (217, 85, 768), (218, 85, 769), (219, 85, 770), (220, 85, 776),
      (221, 89, 769), (224, 97, 768), (225, 97, 769), (226, 97, 770), (227, 97, 771),
      (228, 97, 776), (229, 97, 778), (231, 99, 807), (232, 101, 768), (233, 101, 769),
      (234, 101, 770), (235, 101, 776), (236, 105, 768), (237, 105, 769), (238, 105, 770),
      (239, 105, 776), (241, 110, 771), (242, 111, 768), (243, 111, 769), (244, 111, 770),
      (245, 111, 771), (246, 111, 776), (249, 117, 768), (250, 117, 769), (251, 117, 770),
      (252, 117, 776), (253, 121, 769), (255, 121, 776)]"

definition nfd_cp :: "nat \<Rightarrow> utext" where
  "nfd_cp c = (case map_of nfd_table c of None \<Rightarrow> [c] | Some (b, m) \<Rightarrow> [b, m])"

text \<open>General category Mn: the block of combining diacritical marks.\<close>

definition is_Mn :: "nat \<Rightarrow> bool" where
  "is_Mn c \<longleftrightarrow> 768 \<le> c \<and> c \<le> 879"

definition uni_word :: "unicode_db \<Rightarrow> nat \<Rightarrow> bool" where
  "uni_word ucd c = (if c < 256 then is_word c else u_word ucd c)"

definition uni_Mn :: "unicode_db \<Rightarrow> nat \<Rightarrow> bool" where
  "uni_Mn ucd c = (if c < 256 then False else if is_Mn c then True else u_Mn ucd c)"

text \<open>A text within Latin-1 holds no combining mark, so its decomposition is that of its
  characters, one after the other.\<close>

definition uni_nfd :: "unicode_db \<Rightarrow> utext \<Rightarrow> utext" where
  "uni_nfd ucd s = (if list_all (\<lambda>c. c < 256) s then concat (map nfd_cp s) else u_nfd ucd s)"

definition remove_accents :: "unicode_db \<Rightarrow> utext \<Rightarrow> utext" where
  "remove_accents ucd s =
     (if s = [] then [] else filter (\<lambda>c. \<not> uni_Mn ucd c) (uni_nfd ucd s))"

text \<open>\<open>str.upper\<close>, one code point at a time (the sharp s becomes two letters).\<close>

definition upper_cp :: "nat \<Rightarrow> utext" where
  "upper_cp c =
     (if 97 \<le> c \<and> c \<le> 122 then [c - 32]
      else if c = 181 then [924]
      else if c = 223 then [83, 83]
      else if 224 \<le> c \<and> c \<le> 254 \<and> c \<noteq> 247 then [c - 32]
      else if c = 255 then [376]
      else [c])"

definition uni_upper :: "unicode_db \<Rightarrow> nat \<Rightarrow> utext" where
  "uni_upper ucd c = (if c < 256 then upper_cp c else u_upper ucd c)"

definition upper :: "unicode_db \<Rightarrow> utext \<Rightarrow> utext" where
  "upper ucd s = concat (map (uni_upper ucd) s)"

definition normalize_for_reference :: "unicode_db \<Rightarrow> utext \<Rightarrow> utext" where
  "normalize_for_reference ucd s =
     (if s = [] \<or> strip s = [] then []
      else upper ucd (strip_chars [45]
             (re_sub (rplus (Sat is_space)) [45]
                (re_sub (Sat (\<lambda>c. \<not> (uni_word ucd c \<or> is_space c \<or> c = 45))) []
                   (remove_accents ucd (strip s))))))"

text \<open>\<open>str(n)\<close> for an integer.\<close>

fun nat_digits :: "nat \<Rightarrow> utext" where
  "nat_digits n = (if n < 10 then [48 + n] else nat_digits (n div 10) @ [48 + n mod 10])"

definition str_int :: "int \<Rightarrow> utext" where
  "str_int i = (if i < 0 then 45 # nat_digits (nat (- i)) else nat_digits (nat i))"

definition REGION :: utext where
  "REGION = str ''B'' @ 233 # str ''ni Mellal-Kh'' @ 233 # str ''nifra''"

definition make_reference :: "unicode_db \<Rightarrow> utext \<Rightarrow> int \<Rightarrow> utext" where
  "make_reference ucd title project_id =
     (let ref_title = normalize_for_reference ucd title;
          ref_region = normalize_for_reference ucd REGION;
          reference = ref_region @ [45] @ ref_title @ [45] @ str_int project_id
      in if 100 < length reference
         then ref_region @ [45] @ take 50 ref_title @ [45] @ str_int project_id
         else reference)"

subsection \<open>Calculated fields (both scripts)\<close>

definition INV_LOW_MAX :: rat where
  "INV_LOW_MAX = 5000000"

definition INV_MEDIUM_MAX :: rat where
  "INV_MEDIUM_MAX = 20000000"

definition ROI_ASSUMPTION_YEARS :: rat where
  "ROI_ASSUMPTION_YEARS = 6"

definition investment_range_label :: "rat option \<Rightarrow> string option" where
  "investment_range_label estimated_mad =
     (case estimated_mad of
        None \<Rightarrow> None
      | Some e \<Rightarrow>
          if e < INV_LOW_MAX then Some ''Low''
          else if e \<le> INV_MEDIUM_MAX then Some ''Medium''
          else Some ''High'')"

definition min_investment_mad :: "rat option \<Rightarrow> rat option" where
  "min_investment_mad estimated_mad =
     (case estimated_mad of None \<Rightarrow> None | Some e \<Rightarrow> Some (py_round2 (e * (8 / 10))))"

text \<open>\<open>roi_estimated_only\<close> of extract\_projects.py.\<close>

definition roi_estimated_only :: "rat option \<Rightarrow> rat" where
  "roi_estimated_only payback_years =
     (case payback_years of
        Some p \<Rightarrow> if 0 < p then 100 / p else 100 / ROI_ASSUMPTION_YEARS
      | None \<Rightarrow> 100 / ROI_ASSUMPTION_YEARS)"

subsection \<open>Rows\<close>

text \<open>A row is a Python dictionary, or a line of a data frame: a map from column names
  to cells. \<open>Null\<close> is \<open>None\<close> (NaN once in a frame).\<close>

datatype cell = Null | IntV int | FltV rat | StrV utext | BoolV bool

type_synonym row = "string \<rightharpoonup> cell"

definition opt_num :: "rat option \<Rightarrow> cell" where
  "opt_num v = (case v of None \<Rightarrow> Null | Some q \<Rightarrow> FltV q)"

definition opt_txt :: "utext option \<Rightarrow> cell" where
  "opt_txt v = (case v of None \<Rightarrow> Null | Some w \<Rightarrow> StrV w)"

definition OUTPUT_COLUMNS :: "string list" where
  "OUTPUT_COLUMNS =
     [''project_id'', ''project_reference'', ''project_title'', ''project_description'',
      ''sector'', ''sub_sector'', ''project_bank_category'', ''is_project_bank'',
      ''region'', ''province'', ''industrial_zone'', ''estimated_investment_mad'',
      ''min_investment_mad'', ''investment_range'', ''payback_period_years'',
      ''roi_estimated'', ''required_land_area_m2'', ''required_building_area_m2'',
      ''has_pdf'', ''pdf_url'', ''pdf_page_number'', ''publication_date'', ''last_update'',
      ''language'', ''currency'', ''source_type'']"

definition SOURCE_TYPE :: utext where
  "SOURCE_TYPE = str ''CRI '' @ REGION"

record layout =
  full_text :: utext
  left_text :: utext
  right_text :: utext

text \<open>The description, sub-sector, province and zone locators and the resolved path of the
  document are computed apart from everything the properties below speak about; their
  results enter the record as given.\<close>

record side_fields =
  side_description :: "utext option"
  side_sub_sector :: "utext option"
  side_province :: "utext option"
  side_industrial_zone :: "utext option"
  side_pdf_url :: utext

text \<open>\<open>extract_fields\<close>: a field is \<open>None\<close> when the dictionary has no such key.\<close>

record extracted_fields =
  f_project_title :: "utext option"
  f_sector :: "utext option"
  f_numeric :: numeric_fields

definition all_text :: "layout \<Rightarrow> utext" where
  "all_text layout_data =
     join_with [10] [full_text layout_data, left_text layout_data, right_text layout_data]"

definition extract_fields :: "utext \<Rightarrow> layout \<Rightarrow> extracted_fields" where
  "extract_fields filename layout_data =
     \<lparr>f_project_title = Some (extract_project_title (full_text layout_data) filename),
      f_sector = Some (extract_sector_from_layout (left_text layout_data) (full_text layout_data)),
      f_numeric = extract_numeric_fields (all_text layout_data)\<rparr>"

definition get_or :: "'a option \<Rightarrow> 'a \<Rightarrow> 'a" where
  "get_or v d = (case v of None \<Rightarrow> d | Some x \<Rightarrow> x)"

definition project_row :: "unicode_db \<Rightarrow> int \<Rightarrow> extracted_fields \<Rightarrow> side_fields \<Rightarrow> row" where
  "project_row ucd project_id flds side =
     map_of
       [(''project_id'', IntV project_id),
        (''project_reference'',
           StrV (make_reference ucd (get_or (f_project_title flds) (str ''Projet Sans Titre''))
                  project_id)),
        (''project_title'', StrV (get_or (f_project_title flds) (str ''Projet Sans Titre''))),
        (''project_description'', opt_txt (side_description side)),
        (''sector'', StrV (get_or (f_sector flds) (str ''CRI''))),
        (''sub_sector'', opt_txt (side_sub_sector side)),
        (''project_bank_category'', StrV (get_or (f_sector flds) (str ''CRI''))),
        (''is_project_bank'', BoolV True),
        (''region'', StrV REGION),
        (''province'', opt_txt (side_province side)),
        (''industrial_zone'', opt_txt (side_industrial_zone side)),
        (''estimated_investment_mad'', opt_num (estimated_investment_mad (f_numeric flds))),
        (''min_investment_mad'',
           opt_num (min_investment_mad (estimated_investment_mad (f_numeric flds)))),
        (''investment_range'',
           opt_txt (map_option str
              (investment_range_label (estimated_investment_mad (f_numeric flds))))),
        (''payback_period_years'', opt_num (payback_period_years (f_numeric flds))),
        (''roi_estimated'', opt_num (roi_estimated (f_numeric flds))),
        (''required_land_area_m2'', opt_num (required_land_area_m2 (f_numeric flds))),
        (''required_building_area_m2'', Null),
        (''has_pdf'', BoolV True),
        (''pdf_url'', StrV (side_pdf_url side)),
        (''pdf_page_number'', IntV 1),
        (''publication_date'', Null),
        (''last_update'', Null),
        (''language'', StrV (str ''FR'')),
        (''currency'', StrV (str ''MAD'')),
        (''source_type'', StrV SOURCE_TYPE)]"

record pdf_doc =
  doc_name :: utext
  doc_layout :: layout
  doc_side :: side_fields

text \<open>\<open>process_one_pdf\<close>: the text and layout of the document are what the PDF library
  returned for it; a document without text gives no row.\<close>

definition process_one_pdf :: "unicode_db \<Rightarrow> pdf_doc \<Rightarrow> int \<Rightarrow> row option" where
  "process_one_pdf ucd doc project_id =
     (if full_text (doc_layout doc) = [] then None
      else Some (project_row ucd project_id (extract_fields (doc_name doc) (doc_layout doc))
                   (doc_side doc)))"


section \<open>Dataset merge engine\<close>

record frame =
  columns :: "string list"
  rows :: "row list"

text \<open>The persisted file as \<open>_safe_read_existing_output\<close> finds it: absent, present but
  rejected by the CSV reader, or parsed into a frame.\<close>

datatype csv_file = Missing | Unreadable | Readable frame

definition safe_read_existing_output :: "csv_file \<Rightarrow> frame" where
  "safe_read_existing_output f =
     (case f of
        Missing \<Rightarrow> \<lparr>columns = OUTPUT_COLUMNS, rows = []\<rparr>
      | Unreadable \<Rightarrow> \<lparr>columns = OUTPUT_COLUMNS, rows = []\<rparr>
      | Readable df \<Rightarrow> df)"

definition frame_empty :: "frame \<Rightarrow> bool" where
  "frame_empty df \<longleftrightarrow> rows df = [] \<or> columns df = []"

definition column :: "frame \<Rightarrow> string \<Rightarrow> cell list" where
  "column df c = map (\<lambda>r. case r c of None \<Rightarrow> Null | Some v \<Rightarrow> v) (rows df)"

text \<open>\<open>pd.to_numeric(..., errors="coerce")\<close> on one cell; \<open>None\<close> is NaN.\<close>

definition to_numeric :: "cell \<Rightarrow> rat option" where
  "to_numeric c =
     (case c of
        Null \<Rightarrow> None
      | IntV i \<Rightarrow> Some (of_int i)
      | FltV q \<Rightarrow> Some q
      | StrV w \<Rightarrow> py_float w
      | BoolV b \<Rightarrow> Some (if b then 1 else 0))"

text \<open>\<open>int(v)\<close> truncates towards zero.\<close>

definition py_int :: "rat \<Rightarrow> int" where
  "py_int v = (if 0 \<le> v then \<lfloor>v\<rfloor> else \<lceil>v\<rceil>)"

definition numeric_ids :: "frame \<Rightarrow> rat list" where
  "numeric_ids df = List.map_filter to_numeric (column df ''project_id'')"

definition max_project_id :: "frame \<Rightarrow> int" where
  "max_project_id df =
     (if ''project_id'' \<in> set (columns df) \<and> \<not> frame_empty df
      then (case numeric_ids df of [] \<Rightarrow> 0 | v # vs \<Rightarrow> py_int (fold max vs v))
      else 0)"

text \<open>A cell turned into a string equals the source tag only if it is that text.\<close>

definition remove_rows_for_this_source :: "frame \<Rightarrow> frame" where
  "remove_rows_for_this_source df =
     (if frame_empty df then \<lparr>columns = columns df, rows = []\<rparr>
      else if ''source_type'' \<in> set (columns df)
      then \<lparr>columns = columns df,
            rows = filter (\<lambda>r. r ''source_type'' \<noteq> Some (StrV SOURCE_TYPE)) (rows df)\<rparr>
      else if ''region'' \<in> set (columns df)
      then \<lparr>columns = columns df,
            rows = filter (\<lambda>r. r ''region'' \<noteq> Some (StrV REGION)) (rows df)\<rparr>
      else df)"

definition ensure_row :: "string list \<Rightarrow> string list \<Rightarrow> row \<Rightarrow> row" where
  "ensure_row have want r =
     (\<lambda>c. if c \<in> set want then (if c \<in> set have then r c else Some Null) else None)"

definition ensure_columns :: "frame \<Rightarrow> string list \<Rightarrow> frame" where
  "ensure_columns df cols =
     \<lparr>columns = cols, rows = map (ensure_row (columns df) cols) (rows df)\<rparr>"

definition frame_of_rows :: "row list \<Rightarrow> frame" where
  "frame_of_rows rs = \<lparr>columns = (if rs = [] then [] else OUTPUT_COLUMNS), rows = rs\<rparr>"

definition concat_frames :: "frame \<Rightarrow> frame \<Rightarrow> frame" where
  "concat_frames a b = \<lparr>columns = columns a, rows = rows a @ rows b\<rparr>"

text \<open>The worker pool: one task per document, the identifier fixed when the task is
  submitted. \<open>order\<close> is the order in which the tasks complete.\<close>

definition submit_all :: "unicode_db \<Rightarrow> int \<Rightarrow> pdf_doc list \<Rightarrow> row option list" where
  "submit_all ucd next_id pdf_files =
     map (\<lambda>(idx, pdf_file). process_one_pdf ucd pdf_file (next_id + int idx))
         (enumerate 0 pdf_files)"

definition as_completed :: "nat list \<Rightarrow> 'a list \<Rightarrow> 'a list" where
  "as_completed order futures = map (\<lambda>i. futures ! i) (filter (\<lambda>i. i < length futures) order)"

definition sort_id :: "row \<Rightarrow> int" where
  "sort_id r = (case r ''project_id'' of Some (IntV i) \<Rightarrow> i | _ \<Rightarrow> 0)"

definition next_project_id :: "csv_file \<Rightarrow> int" where
  "next_project_id f = max_project_id (safe_read_existing_output f) + 1"

definition extracted_rows ::
  "unicode_db \<Rightarrow> csv_file \<Rightarrow> pdf_doc list \<Rightarrow> nat list \<Rightarrow> row list" where
  "extracted_rows ucd f pdf_files order =
     sort_key sort_id
       (List.map_filter (\<lambda>x. x)
          (as_completed order (submit_all ucd (next_project_id f) pdf_files)))"

text \<open>\<open>process_pdfs\<close> returns the frame it writes, or \<open>None\<close> when it returns before
  writing because there is no document.\<close>

definition process_pdfs ::
  "unicode_db \<Rightarrow> csv_file \<Rightarrow> pdf_doc list \<Rightarrow> nat list \<Rightarrow> frame option" where
  "process_pdfs ucd f pdf_files order =
     (let df_kept = remove_rows_for_this_source (safe_read_existing_output f) in
      if pdf_files = [] then None
      else
        let df_new = ensure_columns (frame_of_rows (extracted_rows ucd f pdf_files order))
                       OUTPUT_COLUMNS;
            df_out = concat_frames (ensure_columns df_kept OUTPUT_COLUMNS) df_new
        in Some (ensure_columns df_out OUTPUT_COLUMNS))"


section \<open>Concrete documents used as examples\<close>

definition no_side :: side_fields where
  "no_side =
     \<lparr>side_description = None, side_sub_sector = None, side_province = None,
      side_industrial_zone = None, side_pdf_url = str ''/fiche.pdf''\<rparr>"

definition doc_20_30 :: pdf_doc where
  "doc_20_30 =
     \<lparr>doc_name = str ''fiche.pdf'',
      doc_layout = \<lparr>full_text = str ''20 - 30 MDH'', left_text = [], right_text = []\<rparr>,
      doc_side = no_side\<rparr>"

definition doc_mdh_emplois :: pdf_doc where
  "doc_mdh_emplois =
     \<lparr>doc_name = str ''fiche.pdf'',
      doc_layout =
        \<lparr>full_text = str ''20 - 30 MDH Emplois : 10'', left_text = [], right_text = []\<rparr>,
      doc_side = no_side\<rparr>"

text \<open>The title block "CENTRE D'APPEL CENTRE D'APPEL" (with the typographic apostrophe
  U+2019) and a page that carries it on the line after the project number.\<close>

definition centre_dappel :: utext where
  "centre_dappel = str ''CENTRE D'' @ 8217 # str ''APPEL''"

definition centre_dappel_twice :: utext where
  "centre_dappel_twice = centre_dappel @ 32 # centre_dappel"

definition page_centre_dappel :: utext where
  "page_centre_dappel =
     str ''Projet N'' @ 176 # str '' : PR100'' @ 10 # centre_dappel_twice @ 10 #
     str ''Secteur '' @ 233 # str ''conomique : SERVICES''"

definition doc_centre_dappel :: pdf_doc where
  "doc_centre_dappel =
     \<lparr>doc_name = str ''fiche.pdf'',
      doc_layout = \<lparr>full_text = page_centre_dappel, left_text = [], right_text = []\<rparr>,
      doc_side = no_side\<rparr>"

definition doc_underscore :: pdf_doc where
  "doc_underscore =
     \<lparr>doc_name = str ''a_b.pdf'',
      doc_layout = \<lparr>full_text = str ''Fiche'', left_text = [], right_text = []\<rparr>,
      doc_side = no_side\<rparr>"

definition title_unite :: utext where
  "title_unite = str ''  Unit'' @ 233 # str '' de (tri) ''"

definition long_title :: utext where
  "long_title = str ''UNITE DE PRODUCTION ET DE CONDITIONNEMENT DES HUILES ESSENTIELLES ET PLANTES AROMATIQUES''"

section \<open>Notions used to state and prove the properties\<close>

text \<open>
  The amount resolution as an ordered list of strategies, each a pattern and a reader of
  its match; the first strategy whose pattern matches decides. \<open>claimed_strategies\<close> is
  the order of the specification, \<open>code_strategies\<close> the order the code follows.
\<close>

type_synonym strategy = "re \<times> (rmatch \<Rightarrow> rat option)"

fun first_success :: "strategy list \<Rightarrow> utext \<Rightarrow> rat option" where
  "first_success [] t = None"
| "first_success ((r, rd) # ss) t =
     (case re_search r t of Some m \<Rightarrow> rd m | None \<Rightarrow> first_success ss t)"

definition range_times :: "rat \<Rightarrow> rmatch \<Rightarrow> rat option" where
  "range_times k m =
     (case (comma_float (m 1), comma_float (m 2)) of
        (Some a, Some b) \<Rightarrow> Some (((a + b) / 2) * k)
      | _ \<Rightarrow> None)"

definition single_times :: "rat \<Rightarrow> rmatch \<Rightarrow> rat option" where
  "single_times k m = (case comma_float (m 1) of Some a \<Rightarrow> Some (a * k) | None \<Rightarrow> None)"

definition plain_dh :: "rmatch \<Rightarrow> rat option" where
  "plain_dh m = dh_float (m 1)"

definition claimed_strategies :: "strategy list" where
  "claimed_strategies =
     [(RE_KDHS_RANGE, range_times 1000), (RE_KDHS_SINGLE, single_times 1000),
      (RE_MDH_RANGE, range_times 1000000), (RE_MDH_LABELLED, single_times 1000000),
      (RE_MDH_SINGLE, single_times 1000000),
      (RE_DH_LABELLED, plain_dh), (RE_DH_CA, plain_dh), (RE_DH_FIRST, plain_dh)]"

definition code_strategies :: "strategy list" where
  "code_strategies =
     [(RE_KDHS_RANGE, range_times 1000), (RE_KDHS_SINGLE, single_times 1000),
      (RE_MDH_RANGE, range_times 1000000), (RE_MDH_LABELLED, single_times 1000000),
      (RE_MDH_SINGLE, single_times 1000000),
      (RE_DH_CA, plain_dh), (RE_DH_LABELLED, plain_dh), (RE_DH_FIRST, plain_dh)]"


text \<open>The groups a pattern can set, and the shape of the text a number group captures.\<close>

fun gdom :: "re \<Rightarrow> nat set" where
  "gdom (Group i a) = insert i (gdom a)"
| "gdom (Seq a b) = gdom a \<union> gdom b"
| "gdom (Alt a b) = gdom a \<union> gdom b"
| "gdom (Star a) = gdom a"
| "gdom (StarL a) = gdom a"
| "gdom (Look a) = {}"
| "gdom _ = {}"

definition is_decimal :: "utext \<Rightarrow> bool" where
  "is_decimal w \<longleftrightarrow>
     (\<exists>ip. ip \<noteq> [] \<and> list_all is_digit ip \<and>
        (w = ip \<or> (\<exists>c fp. (c = 46 \<or> c = 44) \<and> fp \<noteq> [] \<and> list_all is_digit fp \<and> w = ip @ c # fp)))"


text \<open>
  The characters of a title that the reference normaliser keeps: those of the canonical
  decomposition of the stripped title that are word characters and no combining marks.
\<close>

definition kept_char :: "unicode_db \<Rightarrow> utext \<Rightarrow> nat \<Rightarrow> bool" where
  "kept_char ucd s d \<longleftrightarrow>
     d \<in> set (uni_nfd ucd (strip s)) \<and> \<not> uni_Mn ucd d \<and> uni_word ucd d"

definition latin1 :: "utext \<Rightarrow> bool" where
  "latin1 s \<longleftrightarrow> list_all (\<lambda>c. c < 256) s"

text \<open>
  The characters the reference of a title within U+0000 to U+00FF can hold: the hyphen, the
  underscore, ASCII digits and capital letters, and the upper-case forms of the Latin-1
  word characters that have no canonical decomposition (ordinal indicators, superscript
  digits, fractions, the letters AE, ETH, O-slash and THORN, and the capital MU that
  \<open>str.upper\<close> gives for the micro sign). \<open>claimed_ref_char\<close> is the class the
  specification names, A-Z, 0-9 and the hyphen.
\<close>

definition ref_char :: "nat \<Rightarrow> bool" where
  "ref_char c \<longleftrightarrow>
     c = 45 \<or> c = 95 \<or> (48 \<le> c \<and> c \<le> 57) \<or> (65 \<le> c \<and> c \<le> 90) \<or>
     c \<in> set [170, 178, 179, 185, 186, 188, 189, 190, 198, 208, 216, 222, 924]"

definition claimed_ref_char :: "nat \<Rightarrow> bool" where
  "claimed_ref_char c \<longleftrightarrow> c = 45 \<or> (48 \<le> c \<and> c \<le> 57) \<or> (65 \<le> c \<and> c \<le> 90)"

definition upper_ok :: "nat \<Rightarrow> bool" where
  "upper_ok c =
     (if is_word c
      then (if map_of nfd_table c = None then list_all ref_char (upper_cp c) else True)
      else True)"

section \<open>Properties of the matcher\<close>

declare run.simps [simp del]
declare search_from.simps [simp del]
declare re_sub_from.simps [simp del]

lemma floor_numeral_div: "\<lfloor>numeral a / numeral b :: rat\<rfloor> = numeral a div numeral b"
  using floor_divide_of_int_eq[of "numeral a" "numeral b", where ?'a = rat] by simp

lemmas eval_text = str_def is_space_def is_digit_def is_word_def fold_case_def
lemmas eval_re = run.simps search_from.simps re_search_def re_sub_from.simps re_sub_def
  word_opt_def at_boundary_def chr_def chrI_def lit_def litI_def ropt_def rplus_def rplusL_def
  ws_def digits_def num_def dash_def spaced_def first_search_def
lemmas eval_pat = RE_SPACED_MDH_def mn_qualifier_def mdh_unit_def kdhs_unit_def dhs_unit_def
  invest_label_def colon_or_dash_def amount_char_def RE_MDH_RANGE_def RE_KDHS_RANGE_def
  RE_KDHS_SINGLE_def RE_MDH_LABELLED_def RE_MDH_SINGLE_def RE_DH_CA_def RE_DH_LABELLED_def
  RE_DH_FIRST_def sup_label_def area_num_def m2_unit_def RE_SUP_RANGE_def RE_SUP_SINGLE_def
  RE_SUP_HA_def tri_label_def RE_TRI_RANGE_def RE_TRI_SINGLE_def years_tail_def RE_PBP_def
  RE_ROI_YEARS_def
lemmas eval_num = strip_def replace_char_def remove_char_def digits_val_def decimal_val_def
  unsigned_float_def py_float_def round_half_even_def py_round2_def comma_float_def
  area_float_def dh_float_def Let_def floor_numeral_div
lemmas eval_blocks = kdhs_block_def mdh_block_def dh_block_def investment_amount_def
  surface_m2_def surface_ha_def land_area_def value_or_mean_def roi_from_text_def
  payback_from_text_def fill_roi_def fill_payback_def cross_fill_def numeric_of_norm_def
  extract_numeric_fields_def norm_text_def squeeze_match_def
lemmas eval_locator = clean_text_def py_split_def split_on_def dedupe_repeated_title_def
  has_marker_def RE_TITLE_def extract_project_title_def sector_label_def filieres_def
  sector_stop_def RE_SECTOR_LEFT_def RE_SECTOR_FULL_def RE_LABEL_PREFIX_def
  strip_label_prefix_def extract_sector_from_layout_def replace_sub.simps

lemmas eval_numeric = eval_text eval_re eval_pat eval_num eval_blocks

lemma run_Seq_mem:
  "s' \<in> set (run (Seq a b) s) \<longleftrightarrow> (\<exists>s1 \<in> set (run a s). s' \<in> set (run b s1))"
  by (subst run.simps) auto

lemma run_Alt_mem:
  "s' \<in> set (run (Alt a b) s) \<longleftrightarrow> s' \<in> set (run a s) \<or> s' \<in> set (run b s)"
  by (subst run.simps) auto

lemma run_Star_mem:
  "s' \<in> set (run (Star a) s) \<longleftrightarrow>
     s' = s \<or> (\<exists>s1 \<in> set (run a s). length (rest s1) < length (rest s) \<and> s' \<in> set (run (Star a) s1))"
  by (subst run.simps) (auto split: if_splits)

lemma run_StarL_mem:
  "s' \<in> set (run (StarL a) s) \<longleftrightarrow>
     s' = s \<or> (\<exists>s1 \<in> set (run a s). length (rest s1) < length (rest s) \<and> s' \<in> set (run (StarL a) s1))"
  by (subst run.simps) (auto split: if_splits)

lemma run_Group_mem:
  "s' \<in> set (run (Group i a) s) \<longleftrightarrow>
     (\<exists>s1 \<in> set (run a s).
        s' = s1\<lparr>grps := (grps s1)(i \<mapsto> take (length (rest s) - length (rest s1)) (rest s))\<rparr>)"
  by (subst run.simps) auto

lemma run_Sat_mem:
  "s' \<in> set (run (Sat p) s) \<longleftrightarrow>
     (\<exists>c cs. rest s = c # cs \<and> p c \<and> s' = s\<lparr>prev := Some c, rest := cs\<rparr>)"
  by (cases "rest s") (auto simp: run.simps)

lemma run_atom_mem:
  "s' \<in> set (run Eps s) \<Longrightarrow> s' = s"
  "s' \<in> set (run WordB s) \<Longrightarrow> s' = s"
  "s' \<in> set (run Bol s) \<Longrightarrow> s' = s"
  "s' \<in> set (run Eol s) \<Longrightarrow> s' = s"
  "s' \<in> set (run (Look a) s) \<Longrightarrow> s' = s"
  by (auto simp: run.simps split: if_splits)

lemma run_frame:
  "s' \<in> set (run r s) \<Longrightarrow> i \<notin> gdom r \<Longrightarrow> grps s' i = grps s i"
proof (induction r s arbitrary: s' rule: run.induct)
  case (3 a b s)
  from 3(3) obtain s1 where s1: "s1 \<in> set (run a s)" "s' \<in> set (run b s1)"
    unfolding run_Seq_mem by blast
  from 3(4) have "i \<notin> gdom a" "i \<notin> gdom b" by auto
  with 3(1)[OF s1(1)] 3(2)[OF s1(1) s1(2)] show ?case by simp
next
  case (4 a b s)
  then show ?case unfolding run_Alt_mem by auto
next
  case (5 a s)
  from 5(3) have "s' = s \<or> (\<exists>s1 \<in> set (run a s). length (rest s1) < length (rest s) \<and> s' \<in> set (run (Star a) s1))"
    by (subst (asm) run_Star_mem)
  then show ?case
  proof
    assume "s' = s" then show ?thesis by simp
  next
    assume "\<exists>s1 \<in> set (run a s). length (rest s1) < length (rest s) \<and> s' \<in> set (run (Star a) s1)"
    then obtain s1 where s1: "s1 \<in> set (run a s)" "length (rest s1) < length (rest s)" "s' \<in> set (run (Star a) s1)" by blast
    from 5(4) have ia: "i \<notin> gdom a" by simp
    from 5(1)[OF s1(1) ia] 5(2)[OF s1(1) s1(2) s1(3) 5(4)] show ?thesis by simp
  qed
next
  case (6 a s)
  from 6(3) have "s' = s \<or> (\<exists>s1 \<in> set (run a s). length (rest s1) < length (rest s) \<and> s' \<in> set (run (StarL a) s1))"
    by (subst (asm) run_StarL_mem)
  then show ?case
  proof
    assume "s' = s" then show ?thesis by simp
  next
    assume "\<exists>s1 \<in> set (run a s). length (rest s1) < length (rest s) \<and> s' \<in> set (run (StarL a) s1)"
    then obtain s1 where s1: "s1 \<in> set (run a s)" "length (rest s1) < length (rest s)" "s' \<in> set (run (StarL a) s1)" by blast
    from 6(4) have ia: "i \<notin> gdom a" by simp
    from 6(1)[OF s1(1) ia] 6(2)[OF s1(1) s1(2) s1(3) 6(4)] show ?thesis by simp
  qed
next
  case (7 j a s)
  then show ?case unfolding run_Group_mem by auto
qed (auto simp: run_Sat_mem dest: run_atom_mem)


lemma run_star_sat:
  "s' \<in> set (run (Star (Sat p)) s) \<Longrightarrow>
     \<exists>w. list_all p w \<and> rest s = w @ rest s' \<and> grps s' = grps s"
proof (induction "rest s" arbitrary: s)
  case Nil
  from Nil(2) have "s' = s"
    by (subst (asm) run_Star_mem) (use Nil(1) in \<open>auto simp: run_Sat_mem\<close>)
  then show ?case by simp
next
  case (Cons c cs)
  from Cons(3) have "s' = s \<or> (p c \<and> s' \<in> set (run (Star (Sat p)) (s\<lparr>prev := Some c, rest := cs\<rparr>)))"
    by (subst (asm) run_Star_mem) (use Cons(2) in \<open>auto simp: run_Sat_mem\<close>)
  then show ?case
  proof
    assume "s' = s" then show ?thesis by simp
  next
    assume a: "p c \<and> s' \<in> set (run (Star (Sat p)) (s\<lparr>prev := Some c, rest := cs\<rparr>))"
    have "cs = rest (s\<lparr>prev := Some c, rest := cs\<rparr>)" by simp
    from Cons(1)[OF this] a obtain w where "list_all p w" "cs = w @ rest s'" "grps s' = grps s"
      by auto
    with a Cons(2)[symmetric] have "list_all p (c # w) \<and> rest s = (c # w) @ rest s' \<and> grps s' = grps s"
      by simp
    then show ?thesis by blast
  qed
qed

lemma run_digits:
  assumes "s' \<in> set (run digits s)"
  shows "\<exists>w. w \<noteq> [] \<and> list_all is_digit w \<and> rest s = w @ rest s' \<and> grps s' = grps s"
proof -
  from assms obtain s1 where s1: "s1 \<in> set (run (Sat is_digit) s)" "s' \<in> set (run (Star (Sat is_digit)) s1)"
    unfolding digits_def rplus_def run_Seq_mem by blast
  from s1(1) obtain c cs where c: "rest s = c # cs" "is_digit c" "s1 = s\<lparr>prev := Some c, rest := cs\<rparr>"
    unfolding run_Sat_mem by blast
  from run_star_sat[OF s1(2)] c obtain w where "list_all is_digit w" "cs = w @ rest s'" "grps s' = grps s"
    by auto
  with c have "c # w \<noteq> [] \<and> list_all is_digit (c # w) \<and> rest s = (c # w) @ rest s' \<and> grps s' = grps s"
    by simp
  then show ?thesis by blast
qed

lemma run_num:
  assumes "s' \<in> set (run num s)"
  shows "\<exists>w. is_decimal w \<and> rest s = w @ rest s' \<and> grps s' = grps s"
proof -
  from assms obtain s1 where s1: "s1 \<in> set (run digits s)"
      "s' \<in> set (run (ropt (Seq (Sat (\<lambda>c. c = 46 \<or> c = 44)) digits)) s1)"
    unfolding num_def run_Seq_mem by blast
  from run_digits[OF s1(1)] obtain ip where ip: "ip \<noteq> []" "list_all is_digit ip"
      "rest s = ip @ rest s1" "grps s1 = grps s" by blast
  from s1(2) have "s' = s1 \<or> s' \<in> set (run (Seq (Sat (\<lambda>c. c = 46 \<or> c = 44)) digits) s1)"
    unfolding ropt_def run_Alt_mem by (auto dest: run_atom_mem)
  then show ?thesis
  proof
    assume "s' = s1"
    with ip have "is_decimal ip \<and> rest s = ip @ rest s' \<and> grps s' = grps s"
      unfolding is_decimal_def by auto
    then show ?thesis by blast
  next
    assume "s' \<in> set (run (Seq (Sat (\<lambda>c. c = 46 \<or> c = 44)) digits) s1)"
    then obtain s2 where s2: "s2 \<in> set (run (Sat (\<lambda>c. c = 46 \<or> c = 44)) s1)" "s' \<in> set (run digits s2)"
      unfolding run_Seq_mem by blast
    from s2(1) obtain c cs where c: "rest s1 = c # cs" "c = 46 \<or> c = 44" "s2 = s1\<lparr>prev := Some c, rest := cs\<rparr>"
      unfolding run_Sat_mem by blast
    from run_digits[OF s2(2)] c obtain fp where fp: "fp \<noteq> []" "list_all is_digit fp"
      "cs = fp @ rest s'" "grps s' = grps s1" by auto
    from ip c fp have "is_decimal (ip @ c # fp)" unfolding is_decimal_def by blast
    moreover from ip c fp have "rest s = (ip @ c # fp) @ rest s'" by simp
    ultimately show ?thesis using fp(4) ip(4) by metis
  qed
qed

lemma run_group_num:
  assumes "s' \<in> set (run (Group i num) s)"
  shows "\<exists>w. is_decimal w \<and> grps s' = (grps s)(i \<mapsto> w)"
proof -
  from assms obtain s1 where s1: "s1 \<in> set (run num s)"
    "s' = s1\<lparr>grps := (grps s1)(i \<mapsto> take (length (rest s) - length (rest s1)) (rest s))\<rparr>"
    unfolding run_Group_mem by blast
  from run_num[OF s1(1)] obtain w where w: "is_decimal w" "rest s = w @ rest s1" "grps s1 = grps s"
    by blast
  then have "take (length (rest s) - length (rest s1)) (rest s) = w" by simp
  with s1(2) w show ?thesis by auto
qed


lemma search_from_run:
  "search_from r p t = Some m \<Longrightarrow>
     \<exists>p' t' s'. s' \<in> set (run (Group 0 r) \<lparr>prev = p', rest = t', grps = Map.empty\<rparr>) \<and> m = grps s'"
proof (induction t arbitrary: p)
  case Nil
  then show ?case
    by (subst (asm) search_from.simps) (auto split: list.splits, (metis list.set_intros(1))+)
next
  case (Cons c cs)
  show ?case
  proof (cases "run (Group 0 r) \<lparr>prev = p, rest = c # cs, grps = Map.empty\<rparr>")
    case Nil
    with Cons(2) have "search_from r (Some c) cs = Some m"
      by (subst (asm) search_from.simps) simp
    from Cons(1)[OF this] show ?thesis .
  next
    case (Cons s' ss)
    with Cons.prems have "m = grps s'"
      by (subst (asm) search_from.simps) simp
    moreover from Cons have "s' \<in> set (run (Group 0 r) \<lparr>prev = p, rest = c # cs, grps = Map.empty\<rparr>)"
      by simp
    ultimately show ?thesis by blast
  qed
qed

lemma search_groups:
  assumes "re_search r t = Some m"
  shows "\<exists>s s'. s' \<in> set (run r s) \<and> grps s = Map.empty \<and> (\<forall>i. i \<noteq> 0 \<longrightarrow> m i = grps s' i)"
proof -
  from search_from_run[OF assms[unfolded re_search_def]] obtain p' t' s'
    where a: "s' \<in> set (run (Group 0 r) \<lparr>prev = p', rest = t', grps = Map.empty\<rparr>)" "m = grps s'"
    by blast
  from a(1) obtain s1 where "s1 \<in> set (run r \<lparr>prev = p', rest = t', grps = Map.empty\<rparr>)"
     "\<forall>i. i \<noteq> 0 \<longrightarrow> grps s' i = grps s1 i"
    unfolding run_Group_mem by auto
  with a(2) show ?thesis by (intro exI[of _ "\<lparr>prev = p', rest = t', grps = Map.empty\<rparr>"] exI[of _ s1]) simp
qed

text \<open>A range: two decimal groups with a separator between them, and a tail without groups.\<close>

lemma run_range:
  assumes "s' \<in> set (run (Seq (Group 1 num) (Seq ws (Seq dash (Seq ws (Seq (Group 2 num) tail))))) s)"
    and "gdom tail = {}"
  shows "\<exists>w1 w2. is_decimal w1 \<and> is_decimal w2 \<and> grps s' 1 = Some w1 \<and> grps s' 2 = Some w2"
proof -
  from assms(1) obtain s1 s2 s3 s4 s5 where
      s1: "s1 \<in> set (run (Group 1 num) s)" and s2: "s2 \<in> set (run ws s1)"
      and s3: "s3 \<in> set (run dash s2)" and s4: "s4 \<in> set (run ws s3)"
      and s5: "s5 \<in> set (run (Group 2 num) s4)" and s6: "s' \<in> set (run tail s5)"
    unfolding run_Seq_mem by blast
  from run_group_num[OF s1] obtain w1 where w1: "is_decimal w1" "grps s1 1 = Some w1" by auto
  have g: "gdom ws = {}" "gdom dash = {}" by (simp_all add: ws_def dash_def chr_def chrI_def)
  from run_frame[OF s2, of 1] run_frame[OF s3, of 1] run_frame[OF s4, of 1] g w1
  have "grps s4 1 = Some w1" by simp
  moreover from run_group_num[OF s5] obtain w2 where w2: "is_decimal w2" "grps s5 = (grps s4)(2 \<mapsto> w2)"
    by auto
  ultimately have "grps s5 1 = Some w1" "grps s5 2 = Some w2" by simp_all
  with run_frame[OF s6, of 1] run_frame[OF s6, of 2] assms(2) w1(1) w2(1) show ?thesis by simp
qed

lemma decimal_ends:
  assumes "is_decimal w"
  shows "w \<noteq> [] \<and> is_digit (hd w) \<and> is_digit (last w)"
proof -
  from assms obtain ip where ip: "ip \<noteq> []" "list_all is_digit ip"
    and w: "w = ip \<or> (\<exists>c fp. (c = 46 \<or> c = 44) \<and> fp \<noteq> [] \<and> list_all is_digit fp \<and> w = ip @ c # fp)"
    unfolding is_decimal_def by blast
  from ip have h: "is_digit (hd ip)" "is_digit (last ip)"
    by (simp_all add: list_all_iff)
  from w show ?thesis
  proof
    assume "w = ip" with ip h show ?thesis by simp
  next
    assume "\<exists>c fp. (c = 46 \<or> c = 44) \<and> fp \<noteq> [] \<and> list_all is_digit fp \<and> w = ip @ c # fp"
    then obtain c fp where fp: "fp \<noteq> []" "list_all is_digit fp" "w = ip @ c # fp" by blast
    then have "is_digit (last fp)" by (simp add: list_all_iff)
    with fp ip h show ?thesis by simp
  qed
qed


lemma strip_id:
  assumes "w \<noteq> []" "\<not> is_space (hd w)" "\<not> is_space (last w)"
  shows "strip w = w"
proof -
  from assms have "dropWhile is_space w = w" by (cases w) simp_all
  moreover from assms have "dropWhile is_space (rev w) = rev w"
    by (cases "rev w") (simp_all add: hd_rev[symmetric])
  ultimately show ?thesis by (simp add: strip_def)
qed

lemma digit_not_space: "is_digit c \<Longrightarrow> \<not> is_space c \<and> c \<noteq> 45 \<and> c \<noteq> 43 \<and> c \<noteq> 44"
  by (auto simp: is_digit_def is_space_def)

lemma unsigned_float_decimal:
  assumes "ip \<noteq> []" "list_all is_digit ip"
  shows "unsigned_float ip = Some (decimal_val ip [])"
    and "list_all is_digit fp \<Longrightarrow> fp \<noteq> [] \<Longrightarrow> unsigned_float (ip @ 46 # fp) = Some (decimal_val ip fp)"
proof -
  from assms have a: "takeWhile is_digit ip = ip" "dropWhile is_digit ip = []"
    by (simp_all add: list_all_iff)
  show "unsigned_float ip = Some (decimal_val ip [])"
    unfolding unsigned_float_def Let_def a using assms by simp
  assume fp: "list_all is_digit fp" "fp \<noteq> []"
  have nd: "\<not> is_digit 46" by (simp add: is_digit_def)
  from assms nd have b: "takeWhile is_digit (ip @ 46 # fp) = ip" "dropWhile is_digit (ip @ 46 # fp) = 46 # fp"
    by (simp_all add: list_all_iff takeWhile_append2 dropWhile_append2)
  show "unsigned_float (ip @ 46 # fp) = Some (decimal_val ip fp)"
    unfolding unsigned_float_def Let_def b using fp by simp
qed

lemma comma_float_decimal:
  assumes "is_decimal w"
  shows "\<exists>v. comma_float (Some w) = Some v \<and> 0 \<le> v"
proof -
  let ?w = "replace_char 44 46 w"
  from decimal_ends[OF assms] have e: "w \<noteq> []" "is_digit (hd w)" "is_digit (last w)" by simp_all
  then have e': "?w \<noteq> []" "is_digit (hd ?w)" "is_digit (last ?w)"
    by (auto simp: replace_char_def hd_map last_map dest: digit_not_space)
  then have st: "strip ?w = ?w" by (intro strip_id) (auto dest: digit_not_space)
  from e' obtain c cs where c: "?w = c # cs" "is_digit c" by (cases ?w) auto
  then have pf: "py_float ?w = unsigned_float ?w"
    using st by (auto simp: py_float_def dest: digit_not_space)
  from assms obtain ip where ip: "ip \<noteq> []" "list_all is_digit ip"
    and w: "w = ip \<or> (\<exists>c fp. (c = 46 \<or> c = 44) \<and> fp \<noteq> [] \<and> list_all is_digit fp \<and> w = ip @ c # fp)"
    unfolding is_decimal_def by blast
  have keep: "\<And>xs. list_all is_digit xs \<Longrightarrow> replace_char 44 46 xs = xs"
  proof -
    fix xs show "list_all is_digit xs \<Longrightarrow> replace_char 44 46 xs = xs"
      by (induction xs) (auto simp: replace_char_def dest: digit_not_space)
  qed
  have nonneg: "\<And>a b. 0 \<le> decimal_val a b" by (simp add: decimal_val_def)
  from w show ?thesis
  proof
    assume "w = ip"
    with keep[OF ip(2)] unsigned_float_decimal(1)[OF ip] pf nonneg show ?thesis
      by (simp add: comma_float_def)
  next
    assume "\<exists>c fp. (c = 46 \<or> c = 44) \<and> fp \<noteq> [] \<and> list_all is_digit fp \<and> w = ip @ c # fp"
    then obtain c fp where fp: "c = 46 \<or> c = 44" "fp \<noteq> []" "list_all is_digit fp" "w = ip @ c # fp"
      by blast
    then have "?w = ip @ 46 # fp" using keep[OF ip(2)] keep[OF fp(3)]
      by (auto simp: replace_char_def)
    with unsigned_float_decimal(2)[OF ip fp(3) fp(2)] pf nonneg show ?thesis
      by (simp add: comma_float_def)
  qed
qed


lemma mdh_range_groups:
  assumes "re_search RE_MDH_RANGE t = Some m"
  shows "\<exists>low high. comma_float (m 1) = Some low \<and> comma_float (m 2) = Some high"
proof -
  from search_groups[OF assms] obtain s s' where s: "s' \<in> set (run RE_MDH_RANGE s)"
    "\<forall>i. i \<noteq> 0 \<longrightarrow> m i = grps s' i" by blast
  have "gdom (seqs [ws, mn_qualifier, ws, mdh_unit]) = {}"
    by (simp add: ws_def mn_qualifier_def mdh_unit_def ropt_def litI_def chrI_def str_def)
  from run_range[OF s(1)[unfolded RE_MDH_RANGE_def seqs.simps] this[unfolded seqs.simps]] s(2)
  obtain w1 w2 where "is_decimal w1" "is_decimal w2" "m 1 = Some w1" "m 2 = Some w2" by auto
  with comma_float_decimal[of w1] comma_float_decimal[of w2] show ?thesis by auto
qed

lemma row_lookup:
  "project_row ucd pid flds side ''estimated_investment_mad'' =
     Some (opt_num (estimated_investment_mad (f_numeric flds)))"
  "project_row ucd pid flds side ''min_investment_mad'' =
     Some (opt_num (min_investment_mad (estimated_investment_mad (f_numeric flds))))"
  "project_row ucd pid flds side ''investment_range'' =
     Some (opt_txt (map_option str (investment_range_label (estimated_investment_mad (f_numeric flds)))))"
  "project_row ucd pid flds side ''sector'' = Some (StrV (get_or (f_sector flds) (str ''CRI'')))"
  "project_row ucd pid flds side ''project_bank_category'' = Some (StrV (get_or (f_sector flds) (str ''CRI'')))"
  "project_row ucd pid flds side ''project_id'' = Some (IntV pid)"
  "project_row ucd pid flds side ''source_type'' = Some (StrV SOURCE_TYPE)"
  "project_row ucd pid flds side ''project_reference'' =
     Some (StrV (make_reference ucd (get_or (f_project_title flds) (str ''Projet Sans Titre'')) pid))"
  "project_row ucd pid flds side ''project_title'' =
     Some (StrV (get_or (f_project_title flds) (str ''Projet Sans Titre'')))"
  by (simp_all add: project_row_def)

lemma f_title: "f_project_title (extract_fields n l) = Some (extract_project_title (full_text l) n)"
  by (simp add: extract_fields_def)

section \<open>The properties\<close>

text \<open>
  C1 at a document whose text is "20 - 30 MDH Emplois : 10". The range pattern for million
  dirhams matches the text as extracted, with the endpoints 20 and 30. The normaliser,
  whose substitution for the spaced unit "M D H" (line 324) also takes the white space
  after the unit, joins the unit to the next word: the normalised text reads
  "20 - 30 MDHEmplois : 10", on which no amount pattern matches. The amount is absent, and
  so are \<open>min_investment_mad\<close> and \<open>investment_range\<close> in the row, where the mean of the
  endpoints gives 25,000,000, 20,000,000 and "High".
\<close>

theorem mdh_unit_joined_to_next_word:
  "(\<exists>m. re_search RE_MDH_RANGE (all_text (doc_layout doc_mdh_emplois)) = Some m \<and>
        comma_float (m 1) = Some 20 \<and> comma_float (m 2) = Some 30) \<and>
   norm_text (all_text (doc_layout doc_mdh_emplois)) = str ''20 - 30 MDHEmplois : 10 '' \<and>
   re_search RE_MDH_RANGE (norm_text (all_text (doc_layout doc_mdh_emplois))) = None \<and>
   estimated_investment_mad (extract_numeric_fields (all_text (doc_layout doc_mdh_emplois))) = None \<and>
   (\<exists>r. process_one_pdf ucd doc_mdh_emplois 1 = Some r \<and>
        r ''estimated_investment_mad'' = Some Null \<and>
        r ''min_investment_mad'' = Some Null \<and>
        r ''investment_range'' = Some Null)"
proof -
  have t: "all_text (doc_layout doc_mdh_emplois) = str ''20 - 30 MDH Emplois : 10'' @ [10, 10]"
    by (simp add: doc_mdh_emplois_def all_text_def str_def)
  have a: "\<exists>m. re_search RE_MDH_RANGE (all_text (doc_layout doc_mdh_emplois)) = Some m \<and>
        comma_float (m 1) = Some 20 \<and> comma_float (m 2) = Some 30"
    unfolding t by (simp add: eval_numeric)
  have n: "norm_text (all_text (doc_layout doc_mdh_emplois)) = str ''20 - 30 MDHEmplois : 10 ''"
    unfolding t by (simp add: eval_numeric)
  have s: "re_search RE_MDH_RANGE (str ''20 - 30 MDHEmplois : 10 '') = None"
    by (simp add: eval_numeric)
  have e: "numeric_of_norm (str ''20 - 30 MDHEmplois : 10 '') =
      \<lparr>estimated_investment_mad = None, required_land_area_m2 = None,
       roi_estimated = None, payback_period_years = None\<rparr>"
    by (simp add: eval_numeric)
  have x: "extract_numeric_fields (all_text (doc_layout doc_mdh_emplois)) =
      \<lparr>estimated_investment_mad = None, required_land_area_m2 = None,
       roi_estimated = None, payback_period_years = None\<rparr>"
    using e n by (simp add: extract_numeric_fields_def)
  let ?r = "project_row ucd 1 (extract_fields (doc_name doc_mdh_emplois) (doc_layout doc_mdh_emplois))
              (doc_side doc_mdh_emplois)"
  have p: "process_one_pdf ucd doc_mdh_emplois 1 = Some ?r"
    by (simp add: process_one_pdf_def doc_mdh_emplois_def str_def)
  have "?r ''estimated_investment_mad'' = Some Null" "?r ''min_investment_mad'' = Some Null"
    "?r ''investment_range'' = Some Null"
    by (simp_all add: row_lookup extract_fields_def x opt_num_def opt_txt_def
        min_investment_mad_def investment_range_label_def)
  with a n s x p show ?thesis by simp
qed

text \<open>
  C2. The label is "Low" exactly below 5,000,000, "Medium" exactly from 5,000,000 to
  20,000,000, "High" exactly above 20,000,000 and absent exactly when the amount is absent;
  the row of a project carries the label of its estimated amount.
\<close>

theorem investment_range_thresholds:
  "(investment_range_label e = Some ''Low'' \<longleftrightarrow> (\<exists>a. e = Some a \<and> a < 5000000)) \<and>
   (investment_range_label e = Some ''Medium'' \<longleftrightarrow> (\<exists>a. e = Some a \<and> 5000000 \<le> a \<and> a \<le> 20000000)) \<and>
   (investment_range_label e = Some ''High'' \<longleftrightarrow> (\<exists>a. e = Some a \<and> 20000000 < a)) \<and>
   (investment_range_label e = None \<longleftrightarrow> e = None) \<and>
   project_row ucd pid flds side ''investment_range'' =
     Some (opt_txt (map_option str (investment_range_label (estimated_investment_mad (f_numeric flds)))))"
  by (cases e) (auto simp: investment_range_label_def INV_LOW_MAX_def INV_MEDIUM_MAX_def row_lookup)


lemma round_half_even_near: "\<bar>of_int (round_half_even x) - x\<bar> \<le> 1 / 2"
proof -
  define f where "f = \<lfloor>x\<rfloor>"
  have a: "of_int f \<le> x" "x < of_int f + 1" unfolding f_def by linarith+
  consider "x - of_int f < 1 / 2" | "1 / 2 < x - of_int f" | "x - of_int f = 1 / 2" by linarith
  then show ?thesis
  proof cases
    case 1
    then have "round_half_even x = f" by (simp add: round_half_even_def Let_def f_def)
    with 1 a show ?thesis by simp
  next
    case 2
    then have "round_half_even x = f + 1" by (simp add: round_half_even_def Let_def f_def)
    with 2 a show ?thesis by simp
  next
    case 3
    then have "round_half_even x = f \<or> round_half_even x = f + 1"
      by (simp add: round_half_even_def Let_def f_def)
    with 3 a show ?thesis by auto
  qed
qed

lemma py_round2_near: "\<bar>py_round2 x - x\<bar> \<le> 1 / 200"
proof -
  have "\<bar>of_int (round_half_even (x * 100)) - x * 100\<bar> \<le> 1 / 2"
    by (rule round_half_even_near)
  then have "\<bar>(of_int (round_half_even (x * 100)) - x * 100) / 100\<bar> \<le> (1 / 2) / 100"
    by (simp only: abs_divide) simp
  then show ?thesis by (simp add: py_round2_def diff_divide_distrib)
qed

lemma round_half_even_ge_floor: "\<lfloor>x\<rfloor> \<le> round_half_even x"
  by (simp add: round_half_even_def Let_def)

lemma py_round2_ge_1: assumes "1 \<le> x" shows "1 \<le> py_round2 x"
proof -
  from assms have "100 \<le> x * 100" by simp
  then have "100 \<le> \<lfloor>x * 100\<rfloor>" by linarith
  with round_half_even_ge_floor[of "x * 100"] have "100 \<le> round_half_even (x * 100)" by linarith
  then have "(100::rat) \<le> of_int (round_half_even (x * 100))" by linarith
  then show ?thesis by (simp add: py_round2_def)
qed

lemma round_trip_bound:
  assumes "0 < r" "r \<le> 100"
  shows "\<bar>py_round2 (100 / py_round2 (100 / r)) - r\<bar> \<le> (r + 1) / 200"
proof -
  define p where "p = py_round2 (100 / r)"
  from assms have "1 \<le> 100 / r" by (simp add: le_divide_eq)
  then have p1: "1 \<le> p" unfolding p_def by (rule py_round2_ge_1)
  have e1: "\<bar>p - 100 / r\<bar> \<le> 1 / 200" unfolding p_def by (rule py_round2_near)
  have "100 / p - r = r * (100 / r - p) / p" using assms p1 by (simp add: field_simps)
  then have "\<bar>100 / p - r\<bar> = r * \<bar>100 / r - p\<bar> / p"
    using assms p1 by (simp add: abs_mult abs_divide)
  also have "\<dots> \<le> r * (1 / 200) / p"
    using e1 assms p1 by (intro divide_right_mono mult_left_mono) (simp_all add: abs_minus_commute)
  also have "\<dots> \<le> r * (1 / 200) / 1"
    using assms p1 by (intro divide_left_mono) simp_all
  finally have e2: "\<bar>100 / p - r\<bar> \<le> r / 200" by simp
  have e3: "\<bar>py_round2 (100 / p) - 100 / p\<bar> \<le> 1 / 200" by (rule py_round2_near)
  have "\<bar>py_round2 (100 / p) - r\<bar> \<le> \<bar>py_round2 (100 / p) - 100 / p\<bar> + \<bar>100 / p - r\<bar>"
    by linarith
  with e2 e3 have "\<bar>py_round2 (100 / p) - r\<bar> \<le> 1 / 200 + r / 200" by linarith
  then show ?thesis unfolding p_def by (simp add: add_divide_distrib add.commute)
qed

text \<open>
  C3 (amended). In \<open>extract_numeric_fields\<close> the two values are what the text gives,
  cross-filled: with only the payback extracted, the rate is 100 / payback rounded to the
  hundredth whenever the payback is positive, whatever the resulting rate; with only the
  rate extracted, the payback is 100 / rate rounded to the hundredth when the rate lies in
  (0, 100], and stays absent otherwise; with neither extracted both stay absent, with both
  extracted both are kept. For a rate r in (0, 100], deriving the payback and from it the
  rate again gives a value within (r + 1) / 200 of r. In extract\_projects.py
  \<open>roi_estimated_only\<close> is 100 / payback for a positive payback and 100 / 6 otherwise.
\<close>

theorem roi_payback_cross_fill:
  "cross_fill None None = (None, None) \<and>
   cross_fill None (Some pb) = (if 0 < pb then Some (py_round2 (100 / pb)) else None, Some pb) \<and>
   cross_fill (Some tri) None =
     (Some tri, if 0 < tri \<and> tri \<le> 100 then Some (py_round2 (100 / tri)) else None) \<and>
   cross_fill (Some tri) (Some pb) = (Some tri, Some pb) \<and>
   (roi_estimated (extract_numeric_fields txt), payback_period_years (extract_numeric_fields txt)) =
     cross_fill (roi_from_text (norm_text txt)) (payback_from_text (norm_text txt)) \<and>
   (0 < tri \<and> tri \<le> 100 \<longrightarrow>
      (\<exists>p r'. fill_payback (Some tri) None = Some p \<and> fill_roi None (Some p) = Some r' \<and>
               \<bar>r' - tri\<bar> \<le> (tri + 1) / 200)) \<and>
   roi_estimated_only pay =
     (case pay of Some p \<Rightarrow> if 0 < p then 100 / p else 100 / 6 | None \<Rightarrow> 100 / 6)"
proof -
  have rt: "0 < tri \<and> tri \<le> 100 \<longrightarrow>
      (\<exists>p r'. fill_payback (Some tri) None = Some p \<and> fill_roi None (Some p) = Some r' \<and>
               \<bar>r' - tri\<bar> \<le> (tri + 1) / 200)"
  proof
    assume a: "0 < tri \<and> tri \<le> 100"
    then have "1 \<le> 100 / tri" by (simp add: le_divide_eq)
    then have "0 < py_round2 (100 / tri)" using py_round2_ge_1[of "100 / tri"] by linarith
    with a round_trip_bound[of tri] show "\<exists>p r'. fill_payback (Some tri) None = Some p \<and>
        fill_roi None (Some p) = Some r' \<and> \<bar>r' - tri\<bar> \<le> (tri + 1) / 200"
      by (simp add: fill_payback_def fill_roi_def)
  qed
  have ex: "(roi_estimated (extract_numeric_fields txt), payback_period_years (extract_numeric_fields txt)) =
     cross_fill (roi_from_text (norm_text txt)) (payback_from_text (norm_text txt))"
    by (simp add: extract_numeric_fields_def numeric_of_norm_def split: prod.splits)
  show ?thesis
    using rt ex
    by (simp add: cross_fill_def fill_roi_def fill_payback_def roi_estimated_only_def
        ROI_ASSUMPTION_YEARS_def split: option.splits)
qed

theorem roi_payback_cross_fill_witness:
  "(0::rat) < 70 \<and> (70::rat) \<le> 100 \<and>
   fill_payback (Some 70) None = Some (143 / 100) \<and>
   fill_roi None (Some (143 / 100)) = Some (6993 / 100) \<and>
   (\<exists>p r'. fill_payback (Some 70) None = Some p \<and> fill_roi None (Some p) = Some r' \<and>
            \<bar>r' - 70\<bar> \<le> (70 + 1) / 200) \<and>
   cross_fill None (Some 4) = (Some 25, Some 4)"
proof -
  have f: "fill_payback (Some 70) None = Some (143 / 100)"
    "fill_roi None (Some (143 / 100)) = Some (6993 / 100)"
    by (simp_all add: fill_payback_def fill_roi_def py_round2_def round_half_even_def Let_def floor_numeral_div)
  have c: "cross_fill None (Some 4) = (Some 25, Some 4)"
    by (simp add: cross_fill_def fill_payback_def fill_roi_def py_round2_def round_half_even_def Let_def floor_numeral_div)
  from roi_payback_cross_fill[of 4 70 "[]" None]
  have "\<exists>p r'. fill_payback (Some 70) None = Some p \<and> fill_roi None (Some p) = Some r' \<and>
            \<bar>r' - 70\<bar> \<le> (70 + 1) / 200" by simp
  with f c show ?thesis by simp
qed

text \<open>
  C3 as stated fails: the text "PBP : 0,5 ans" gives no rate and a payback of 0.5 years,
  and the rate is derived as 200, outside (0, 100].
\<close>

theorem rate_above_100_derived:
  "roi_from_text (norm_text (str ''PBP : 0,5 ans'')) = None \<and>
   payback_from_text (norm_text (str ''PBP : 0,5 ans'')) = Some (1 / 2) \<and>
   roi_estimated (extract_numeric_fields (str ''PBP : 0,5 ans'')) = Some 200 \<and>
   \<not> (200 \<le> (100::rat))"
  by (simp add: eval_numeric floor_numeral_div)

text \<open>
  C5 at the text "Sup : 2 - 3 Ha": the range pattern for square metres, whose unit is
  optional, matches "Sup : 2 - 3", so the area is 2.5; the hectare block, which would give
  25,000, is not reached.
\<close>

theorem hectare_range_read_as_m2:
  "required_land_area_m2 (extract_numeric_fields (str ''Sup : 2 - 3 Ha'')) = Some (5 / 2) \<and>
   surface_ha (norm_text (str ''Sup : 2 - 3 Ha'')) None = Some 25000"
  by (simp add: eval_numeric)


text \<open>
  C7 at the four-word block "CENTRE D'APPEL CENTRE D'APPEL", the title twice over. The
  comment of \<open>_dedupe_repeated_title\<close> reads: if the title is "X X", the same block
  repeated, keep only one. The collapse is guarded by a length of at least six words, so
  the block of four words, two equal halves of two words, is returned as it is, by
  \<open>_dedupe_repeated_title\<close> and by the title extractor on a page that carries the block on
  the line after the project number; the row built from that page carries the doubled title.
\<close>

theorem four_word_title_kept:
  "py_split centre_dappel_twice = py_split centre_dappel @ py_split centre_dappel \<and>
   py_split centre_dappel_twice =
     [str ''CENTRE'', 68 # 8217 # str ''APPEL'', str ''CENTRE'', 68 # 8217 # str ''APPEL''] \<and>
   dedupe_repeated_title centre_dappel_twice = centre_dappel_twice \<and>
   extract_project_title page_centre_dappel (str ''fiche.pdf'') = centre_dappel_twice \<and>
   centre_dappel_twice \<noteq> centre_dappel \<and>
   (\<exists>r. process_one_pdf ucd doc_centre_dappel 1 = Some r \<and>
        r ''project_title'' = Some (StrV centre_dappel_twice))"
proof -
  have a: "py_split centre_dappel_twice = py_split centre_dappel @ py_split centre_dappel \<and>
   py_split centre_dappel_twice =
     [str ''CENTRE'', 68 # 8217 # str ''APPEL'', str ''CENTRE'', 68 # 8217 # str ''APPEL''] \<and>
   dedupe_repeated_title centre_dappel_twice = centre_dappel_twice \<and>
   extract_project_title page_centre_dappel (str ''fiche.pdf'') = centre_dappel_twice \<and>
   centre_dappel_twice \<noteq> centre_dappel"
    by (simp add: centre_dappel_twice_def centre_dappel_def page_centre_dappel_def eval_text
        eval_re eval_locator strip_def Let_def)
  let ?r = "project_row ucd 1 (extract_fields (doc_name doc_centre_dappel) (doc_layout doc_centre_dappel))
              (doc_side doc_centre_dappel)"
  have p: "process_one_pdf ucd doc_centre_dappel 1 = Some ?r"
    by (simp add: process_one_pdf_def doc_centre_dappel_def page_centre_dappel_def str_def)
  have "?r ''project_title'' = Some (StrV centre_dappel_twice)"
    using a by (simp add: row_lookup f_title get_or_def doc_centre_dappel_def)
  with a p show ?thesis by blast
qed


text \<open>
  C10. Every row the pipeline builds has a text in \<open>sector\<close>, the same text in
  \<open>project_bank_category\<close>, and this text is "CRI" when the sector label matches neither
  in the left column nor in the full text.
\<close>

theorem sector_never_absent:
  assumes "process_one_pdf ucd doc pid = Some r"
  shows "(\<exists>s. r ''sector'' = Some (StrV s)) \<and>
         r ''project_bank_category'' = r ''sector'' \<and>
         (re_search RE_SECTOR_LEFT (left_text (doc_layout doc)) = None \<and>
          re_search RE_SECTOR_FULL (full_text (doc_layout doc)) = None \<longrightarrow>
            r ''sector'' = Some (StrV (str ''CRI'')))"
proof -
  from assms have r: "r = project_row ucd pid (extract_fields (doc_name doc) (doc_layout doc)) (doc_side doc)"
    by (simp add: process_one_pdf_def split: if_splits)
  show ?thesis unfolding r
    by (simp add: row_lookup extract_fields_def get_or_def extract_sector_from_layout_def)
qed

theorem sector_never_absent_witness:
  "\<forall>ucd. \<exists>r. process_one_pdf ucd doc_20_30 1 = Some r \<and>
       r ''sector'' = Some (StrV (str ''CRI'')) \<and>
       r ''project_bank_category'' = Some (StrV (str ''CRI''))"
proof
  fix ucd
  let ?r = "project_row ucd 1 (extract_fields (doc_name doc_20_30) (doc_layout doc_20_30)) (doc_side doc_20_30)"
  have p: "process_one_pdf ucd doc_20_30 1 = Some ?r"
    by (simp add: process_one_pdf_def doc_20_30_def str_def)
  have n: "re_search RE_SECTOR_LEFT (left_text (doc_layout doc_20_30)) = None"
    "re_search RE_SECTOR_FULL (full_text (doc_layout doc_20_30)) = None"
    by (simp_all add: doc_20_30_def eval_text eval_re eval_locator)
  from sector_never_absent[OF p] n have "?r ''sector'' = Some (StrV (str ''CRI''))"
    "?r ''project_bank_category'' = Some (StrV (str ''CRI''))" by simp_all
  with p show "\<exists>r. process_one_pdf ucd doc_20_30 1 = Some r \<and>
       r ''sector'' = Some (StrV (str ''CRI'')) \<and>
       r ''project_bank_category'' = Some (StrV (str ''CRI''))" by blast
qed


lemma run_seq_group_num:
  assumes "s' \<in> set (run (Seq (Group i num) tail) s)" and "i \<notin> gdom tail"
  shows "\<exists>w. is_decimal w \<and> grps s' i = Some w"
proof -
  from assms(1) obtain s1 where s1: "s1 \<in> set (run (Group i num) s)" "s' \<in> set (run tail s1)"
    unfolding run_Seq_mem by blast
  from run_group_num[OF s1(1)] obtain w where "is_decimal w" "grps s1 i = Some w" by auto
  with run_frame[OF s1(2) assms(2)] show ?thesis by auto
qed

lemma gdom_units:
  "gdom (seqs [ws, mn_qualifier, ws, mdh_unit]) = {}"
  "gdom (seqs [ws, kdhs_unit]) = {}"
  by (simp_all add: ws_def mn_qualifier_def mdh_unit_def kdhs_unit_def ropt_def litI_def
      chrI_def str_def)

lemma kdhs_range_groups:
  assumes "re_search RE_KDHS_RANGE t = Some m"
  shows "\<exists>a b. comma_float (m 1) = Some a \<and> comma_float (m 2) = Some b"
proof -
  from search_groups[OF assms] obtain s s' where s: "s' \<in> set (run RE_KDHS_RANGE s)"
    "\<forall>i. i \<noteq> 0 \<longrightarrow> m i = grps s' i" by blast
  from run_range[OF s(1)[unfolded RE_KDHS_RANGE_def seqs.simps] gdom_units(2)[unfolded seqs.simps]] s(2)
  obtain w1 w2 where "is_decimal w1" "is_decimal w2" "m 1 = Some w1" "m 2 = Some w2" by auto
  with comma_float_decimal[of w1] comma_float_decimal[of w2] show ?thesis by auto
qed

lemma kdhs_single_group:
  assumes "re_search RE_KDHS_SINGLE t = Some m"
  shows "\<exists>a. comma_float (m 1) = Some a"
proof -
  from search_groups[OF assms] obtain s s' where s: "s' \<in> set (run RE_KDHS_SINGLE s)"
    "\<forall>i. i \<noteq> 0 \<longrightarrow> m i = grps s' i" by blast
  from s(1) obtain s1 where "s' \<in> set (run (Seq (Group 1 num) (Seq ws kdhs_unit)) s1)"
    unfolding RE_KDHS_SINGLE_def seqs.simps run_Seq_mem[of _ WordB] by blast
  from run_seq_group_num[OF this] gdom_units(2) s(2)
  obtain w where "is_decimal w" "m 1 = Some w" by auto
  with comma_float_decimal[of w] show ?thesis by auto
qed

lemma mdh_single_group:
  assumes "re_search RE_MDH_SINGLE t = Some m"
  shows "\<exists>a. comma_float (m 1) = Some a"
proof -
  from search_groups[OF assms] obtain s s' where s: "s' \<in> set (run RE_MDH_SINGLE s)"
    "\<forall>i. i \<noteq> 0 \<longrightarrow> m i = grps s' i" by blast
  from run_seq_group_num[OF s(1)[unfolded RE_MDH_SINGLE_def seqs.simps]] gdom_units(1) s(2)
  obtain w where "is_decimal w" "m 1 = Some w" by auto
  with comma_float_decimal[of w] show ?thesis by auto
qed

lemma mdh_labelled_group:
  assumes "re_search RE_MDH_LABELLED t = Some m"
  shows "\<exists>a. comma_float (m 1) = Some a"
proof -
  from search_groups[OF assms] obtain s s' where s: "s' \<in> set (run RE_MDH_LABELLED s)"
    "\<forall>i. i \<noteq> 0 \<longrightarrow> m i = grps s' i" by blast
  from s(1) obtain s1 s2 s3 s4 where
    "s' \<in> set (run (Seq (Group 1 num) (Seq ws (Seq mn_qualifier (Seq ws mdh_unit)))) s4)"
    unfolding RE_MDH_LABELLED_def seqs.simps run_Seq_mem[of _ invest_label]
      run_Seq_mem[of _ ws "Seq colon_or_dash _"] run_Seq_mem[of _ colon_or_dash]
      run_Seq_mem[of _ ws "Seq (Group 1 num) _"]
    by blast
  from run_seq_group_num[OF this] gdom_units(1) s(2)
  obtain w where "is_decimal w" "m 1 = Some w" by auto
  with comma_float_decimal[of w] show ?thesis by auto
qed

lemma first_success_append_Some:
  "first_success xs t = Some v \<Longrightarrow> first_success (xs @ ys) t = Some v"
  by (induction xs) (auto split: option.splits)

lemma first_success_append_None:
  "\<forall>x \<in> set xs. re_search (fst x) t = None \<Longrightarrow> first_success (xs @ ys) t = first_success ys t"
  by (induction xs) (auto split: option.splits)

text \<open>
  C4 (amended). On a text where the million-dirham range pattern and the thousand-dirham
  patterns do not both match, the amount is decided by the first pattern that matches, in
  this order: thousand-dirham range, thousand-dirham single value, million-dirham range,
  million-dirham value after an "INVESTISSEMENT" label, million-dirham value without label
  (each with the optional "Mn" qualifier), dirham amount followed by the "CA" marker,
  dirham amount after an "INVESTISSEMENT" label, first standalone dirham amount. A dirham
  amount that matches but is not a number leaves the amount absent.
\<close>

theorem amount_resolution_order:
  assumes "re_search RE_MDH_RANGE (norm_text txt) = None \<or>
           (re_search RE_KDHS_RANGE (norm_text txt) = None \<and>
            re_search RE_KDHS_SINGLE (norm_text txt) = None)"
  shows "estimated_investment_mad (extract_numeric_fields txt) =
           first_success code_strategies (norm_text txt)"
proof -
  define t where "t = norm_text txt"
  define kd where "kd = [(RE_KDHS_RANGE, range_times 1000), (RE_KDHS_SINGLE, single_times 1000)]"
  define mdh where "mdh = [(RE_MDH_RANGE, range_times 1000000),
    (RE_MDH_LABELLED, single_times 1000000), (RE_MDH_SINGLE, single_times 1000000)]"
  define dh where "dh = [(RE_DH_CA, plain_dh), (RE_DH_LABELLED, plain_dh), (RE_DH_FIRST, plain_dh)]"
  have cs: "code_strategies = kd @ mdh @ dh"
    by (simp add: code_strategies_def kd_def mdh_def dh_def)
  have e: "estimated_investment_mad (extract_numeric_fields txt) = investment_amount t"
    by (simp add: extract_numeric_fields_def numeric_of_norm_def t_def split: prod.splits)
  have k: "kdhs_block t = first_success kd t"
    by (auto simp: kdhs_block_def kd_def range_times_def single_times_def split: option.splits)
  have kr: "range_times 1000 m \<noteq> None" if "re_search RE_KDHS_RANGE t = Some m" for m
  proof -
    from kdhs_range_groups[OF that] obtain a b
      where "comma_float (m 1) = Some a" "comma_float (m 2) = Some b" by blast
    then show ?thesis by (simp add: range_times_def)
  qed
  have ks: "single_times 1000 m \<noteq> None" if "re_search RE_KDHS_SINGLE t = Some m" for m
  proof -
    from kdhs_single_group[OF that] obtain a where "comma_float (m 1) = Some a" by blast
    then show ?thesis by (simp add: single_times_def)
  qed
  have mr: "range_times 1000000 m \<noteq> None" if "re_search RE_MDH_RANGE t = Some m" for m
  proof -
    from mdh_range_groups[OF that] obtain a b
      where "comma_float (m 1) = Some a" "comma_float (m 2) = Some b" by blast
    then show ?thesis by (simp add: range_times_def)
  qed
  have ml: "single_times 1000000 m \<noteq> None" if "re_search RE_MDH_LABELLED t = Some m" for m
  proof -
    from mdh_labelled_group[OF that] obtain a where "comma_float (m 1) = Some a" by blast
    then show ?thesis by (simp add: single_times_def)
  qed
  have ms: "single_times 1000000 m \<noteq> None" if "re_search RE_MDH_SINGLE t = Some m" for m
  proof -
    from mdh_single_group[OF that] obtain a where "comma_float (m 1) = Some a" by blast
    then show ?thesis by (simp add: single_times_def)
  qed
  have md: "mdh_block t None = first_success mdh t"
    by (auto simp: mdh_block_def mdh_def first_search_def range_times_def single_times_def
        split: option.splits)
  have mk: "mdh_block t (Some v) = Some v" if "re_search RE_MDH_RANGE t = None" for v
    using that by (auto simp: mdh_block_def first_search_def split: option.splits)
  have d: "dh_block t None = first_success dh t"
    by (auto simp: dh_block_def dh_def first_search_def plain_dh_def split: option.splits)
  have dk: "dh_block t (Some v) = Some v" for v by (simp add: dh_block_def)
  show ?thesis
  proof (cases "kdhs_block t")
    case None
    with k kr ks have n: "\<forall>x \<in> set kd. re_search (fst x) t = None"
      by (auto simp: kd_def split: option.splits)
    have f1: "first_success code_strategies t = first_success (mdh @ dh) t"
      unfolding cs by (rule first_success_append_None[OF n])
    show ?thesis
    proof (cases "mdh_block t None")
      case None
      with md mr ml ms have "\<forall>x \<in> set mdh. re_search (fst x) t = None"
        by (auto simp: mdh_def split: option.splits)
      from first_success_append_None[OF this] have "first_success (mdh @ dh) t = first_success dh t" .
      with f1 d None \<open>kdhs_block t = None\<close> show ?thesis
        unfolding e t_def[symmetric] by (simp add: investment_amount_def)
    next
      case (Some v)
      with md have "first_success mdh t = Some v" by simp
      from first_success_append_Some[OF this] have "first_success (mdh @ dh) t = Some v" .
      with f1 Some dk \<open>kdhs_block t = None\<close> show ?thesis
        unfolding e t_def[symmetric] by (simp add: investment_amount_def)
    qed
  next
    case (Some v)
    with k have fs: "first_success kd t = Some v" by simp
    then have "re_search RE_KDHS_RANGE t \<noteq> None \<or> re_search RE_KDHS_SINGLE t \<noteq> None"
      by (auto simp: kd_def split: option.splits)
    with assms have "re_search RE_MDH_RANGE t = None" unfolding t_def by auto
    from mk[OF this] Some dk have "investment_amount t = Some v"
      by (simp add: investment_amount_def)
    moreover from first_success_append_Some[OF fs] have "first_success code_strategies t = Some v"
      unfolding cs .
    ultimately show ?thesis unfolding e t_def[symmetric] by simp
  qed
qed

lemma est_of_norm:
  "estimated_investment_mad (extract_numeric_fields txt) = investment_amount (norm_text txt)"
  by (simp add: extract_numeric_fields_def numeric_of_norm_def split: prod.splits)

lemmas eval_strategies = code_strategies_def claimed_strategies_def range_times_def
  single_times_def plain_dh_def

theorem amount_resolution_order_witness:
  "re_search RE_MDH_RANGE (norm_text (str ''150 KDHS 3 MDH'')) = None \<and>
   first_success code_strategies (norm_text (str ''150 KDHS 3 MDH'')) = Some 150000 \<and>
   estimated_investment_mad (extract_numeric_fields (str ''150 KDHS 3 MDH'')) = Some 150000"
proof -
  have nt: "norm_text (str ''150 KDHS 3 MDH'') = str ''150 KDHS 3 MDH''"
    by (simp add: eval_numeric)
  have n: "re_search RE_MDH_RANGE (str ''150 KDHS 3 MDH'') = None"
    by (simp add: eval_numeric)
  have f: "first_success code_strategies (str ''150 KDHS 3 MDH'') = Some 150000"
    by (simp add: eval_numeric eval_strategies)
  from amount_resolution_order[of "str ''150 KDHS 3 MDH''"] n f show ?thesis
    unfolding nt by simp
qed

text \<open>
  C4 as stated fails: on "INVESTISSEMENT 900 DH - 150 DH - CA" the order of the claim
  (labelled dirham value before the value next to "CA") gives 900, the code gives 150.
\<close>

theorem labelled_dh_after_ca:
  "re_search RE_KDHS_RANGE (norm_text (str ''INVESTISSEMENT 900 DH - 150 DH - CA'')) = None \<and>
   re_search RE_MDH_RANGE (norm_text (str ''INVESTISSEMENT 900 DH - 150 DH - CA'')) = None \<and>
   first_success claimed_strategies (norm_text (str ''INVESTISSEMENT 900 DH - 150 DH - CA'')) = Some 900 \<and>
   estimated_investment_mad (extract_numeric_fields (str ''INVESTISSEMENT 900 DH - 150 DH - CA'')) = Some 150"
proof -
  have nt: "norm_text (str ''INVESTISSEMENT 900 DH - 150 DH - CA'') = str ''INVESTISSEMENT 900 DH - 150 DH - CA''"
    by (simp add: eval_numeric)
  have a: "re_search RE_KDHS_RANGE (str ''INVESTISSEMENT 900 DH - 150 DH - CA'') = None"
    "re_search RE_MDH_RANGE (str ''INVESTISSEMENT 900 DH - 150 DH - CA'') = None"
    by (simp_all add: eval_numeric)
  have b: "first_success claimed_strategies (str ''INVESTISSEMENT 900 DH - 150 DH - CA'') = Some 900"
    by (simp add: eval_numeric eval_strategies)
  have c: "investment_amount (str ''INVESTISSEMENT 900 DH - 150 DH - CA'') = Some 150"
    by (simp add: eval_numeric)
  from a b c show ?thesis unfolding est_of_norm nt by simp
qed


lemma run_suffix:
  "s' \<in> set (run r s) \<Longrightarrow> \<exists>w. rest s = w @ rest s'"
proof (induction r s arbitrary: s' rule: run.induct)
  case (3 a b s)
  from 3(3) obtain s1 where s1: "s1 \<in> set (run a s)" "s' \<in> set (run b s1)"
    unfolding run_Seq_mem by blast
  from 3(1)[OF s1(1)] 3(2)[OF s1(1) s1(2)] show ?case by auto
next
  case (4 a b s)
  then show ?case unfolding run_Alt_mem by auto
next
  case (5 a s)
  from 5(3) have "s' = s \<or> (\<exists>s1 \<in> set (run a s). length (rest s1) < length (rest s) \<and> s' \<in> set (run (Star a) s1))"
    by (subst (asm) run_Star_mem)
  then show ?case
  proof
    assume "s' = s" then show ?thesis by simp
  next
    assume "\<exists>s1 \<in> set (run a s). length (rest s1) < length (rest s) \<and> s' \<in> set (run (Star a) s1)"
    then obtain s1 where s1: "s1 \<in> set (run a s)" "length (rest s1) < length (rest s)" "s' \<in> set (run (Star a) s1)" by blast
    from 5(1)[OF s1(1)] 5(2)[OF s1(1) s1(2) s1(3)] show ?thesis by auto
  qed
next
  case (6 a s)
  from 6(3) have "s' = s \<or> (\<exists>s1 \<in> set (run a s). length (rest s1) < length (rest s) \<and> s' \<in> set (run (StarL a) s1))"
    by (subst (asm) run_StarL_mem)
  then show ?case
  proof
    assume "s' = s" then show ?thesis by simp
  next
    assume "\<exists>s1 \<in> set (run a s). length (rest s1) < length (rest s) \<and> s' \<in> set (run (StarL a) s1)"
    then obtain s1 where s1: "s1 \<in> set (run a s)" "length (rest s1) < length (rest s)" "s' \<in> set (run (StarL a) s1)" by blast
    from 6(1)[OF s1(1)] 6(2)[OF s1(1) s1(2) s1(3)] show ?thesis by auto
  qed
next
  case (7 j a s)
  then show ?case unfolding run_Group_mem by auto
qed (auto simp: run_Sat_mem dest: run_atom_mem)

text \<open>What a substitution can leave in its result: the replacement texts, and the
  characters at which no match, or only an empty one, starts.\<close>

lemma re_sub_from_chars:
  assumes f: "\<And>m. set (f m) \<subseteq> F"
    and q0: "\<And>st c cs. rest st = c # cs \<Longrightarrow> run (Group 0 r) st = [] \<Longrightarrow> Q c"
    and sh: "\<And>st s'. s' \<in> set (run (Group 0 r) st) \<Longrightarrow> rest st \<noteq> [] \<Longrightarrow> length (rest s') < length (rest st)"
  shows "set (re_sub_from r f p t) \<subseteq> F \<union> {c \<in> set t. Q c}"
proof (induction "length t" arbitrary: p t rule: less_induct)
  case less
  let ?st = "\<lparr>prev = p, rest = t, grps = Map.empty\<rparr>"
  show ?case
  proof (cases "run (Group 0 r) ?st")
    case Nil
    show ?thesis
    proof (cases t)
      case Nil
      with \<open>run (Group 0 r) ?st = []\<close> show ?thesis by (subst re_sub_from.simps) simp
    next
      case (Cons c cs)
      from q0[of ?st c cs] Cons Nil have "Q c" by simp
      moreover from less[of cs "Some c"] Cons have "set (re_sub_from r f (Some c) cs) \<subseteq> F \<union> {c \<in> set cs. Q c}"
        by simp
      ultimately show ?thesis using Cons Nil
        by (subst re_sub_from.simps) auto
    qed
  next
    case (Cons s' ss)
    then have m: "s' \<in> set (run (Group 0 r) ?st)" by simp
    show ?thesis
    proof (cases t)
      case Nil
      with Cons f[of "grps s'"] show ?thesis by (subst re_sub_from.simps) auto
    next
      case c: (Cons c cs)
      with sh[OF m] have l: "length (rest s') < length t" by simp
      from run_suffix[OF m] obtain w where "t = w @ rest s'" by auto
      then have sub: "set (rest s') \<subseteq> set t" by (metis set_append sup_ge2)
      from less[OF l, of "prev s'"] sub
      have "set (re_sub_from r f (prev s') (rest s')) \<subseteq> F \<union> {c \<in> set t. Q c}" by auto
      with Cons l f[of "grps s'"] show ?thesis by (subst re_sub_from.simps) auto
    qed
  qed
qed


lemma run_Star_nonempty: "run (Star a) s \<noteq> []"
  by (subst run.simps) simp

lemma re_sub_remove_chars:
  "set (re_sub (Sat p) [] t) \<subseteq> {c \<in> set t. \<not> p c}"
proof -
  have "set (re_sub_from (Sat p) (\<lambda>_. []) None t) \<subseteq> {} \<union> {c \<in> set t. \<not> p c}"
  proof (rule re_sub_from_chars)
    fix st c cs assume "rest st = c # cs" "run (Group 0 (Sat p)) st = []"
    then show "\<not> p c" by (auto simp: run.simps)
  next
    fix st s' assume "s' \<in> set (run (Group 0 (Sat p)) st)"
    then obtain s1 where "s1 \<in> set (run (Sat p) st)" "rest s' = rest s1"
      unfolding run_Group_mem by auto
    then show "length (rest s') < length (rest st)"
      unfolding run_Sat_mem by auto
  qed simp
  then show ?thesis by (simp add: re_sub_def)
qed

lemma re_sub_spaces_chars:
  "set (re_sub (rplus (Sat is_space)) [d] t) \<subseteq> {d} \<union> {c \<in> set t. \<not> is_space c}"
proof -
  have "set (re_sub_from (rplus (Sat is_space)) (\<lambda>_. [d]) None t) \<subseteq> {d} \<union> {c \<in> set t. \<not> is_space c}"
  proof (rule re_sub_from_chars)
    fix st c cs assume a: "rest st = c # cs" "run (Group 0 (rplus (Sat is_space))) st = []"
    show "\<not> is_space c"
    proof
      assume "is_space c"
      with a(1) have "run (rplus (Sat is_space)) st =
          run (Star (Sat is_space)) (st\<lparr>prev := Some c, rest := cs\<rparr>)"
        by (simp add: rplus_def run.simps(2,3))
      with run_Star_nonempty have "run (rplus (Sat is_space)) st \<noteq> []" by simp
      with a(2) show False by (simp add: run.simps(7))
    qed
  next
    fix st s' assume "s' \<in> set (run (Group 0 (rplus (Sat is_space))) st)"
    then obtain s0 where s0: "s0 \<in> set (run (Seq (Sat is_space) (Star (Sat is_space))) st)"
      "rest s' = rest s0"
      unfolding run_Group_mem rplus_def by auto
    from s0(1) obtain s1 where "s1 \<in> set (run (Sat is_space) st)"
      "s0 \<in> set (run (Star (Sat is_space)) s1)"
      unfolding run_Seq_mem by blast
    note s = this s0(2)
    from s(1) have "length (rest s1) < length (rest st)" unfolding run_Sat_mem by auto
    moreover from run_suffix[OF s(2)] have "length (rest s0) \<le> length (rest s1)" by auto
    ultimately show "length (rest s') < length (rest st)" using s(3) by simp
  qed simp
  then show ?thesis by (simp add: re_sub_def)
qed

lemma strip_chars_subset: "set (strip_chars cs s) \<subseteq> set s"
proof -
  have "set (dropWhile P xs) \<subseteq> set xs" for P and xs :: "nat list"
    by (auto dest: set_dropWhileD)
  from this[of _ "rev (dropWhile (\<lambda>c. c \<in> set cs) s)"] this[of "\<lambda>c. c \<in> set cs" s]
  show ?thesis unfolding strip_chars_def by (metis set_rev subset_trans)
qed

lemma strip_subset: "set (strip s) \<subseteq> set s"
proof -
  have "set (dropWhile P xs) \<subseteq> set xs" for P and xs :: "nat list"
    by (auto dest: set_dropWhileD)
  from this[of _ "rev (dropWhile is_space s)"] this[of is_space s]
  show ?thesis unfolding strip_def by (metis set_rev subset_trans)
qed

lemma nfd_table_parts:
  "\<forall>x \<in> set nfd_table.
     map_of nfd_table (fst (snd x)) = None \<and> fst (snd x) < 256 \<and> is_Mn (snd (snd x))"
  by (simp add: nfd_table_def is_Mn_def)

lemma nfd_cp_chars:
  assumes "c \<in> set (nfd_cp x)" and "x < 256"
  shows "is_Mn c \<or> (c < 256 \<and> map_of nfd_table c = None)"
proof (cases "map_of nfd_table x")
  case None
  with assms show ?thesis by (simp add: nfd_cp_def)
next
  case (Some bm)
  then have "(x, bm) \<in> set nfd_table" by (rule map_of_SomeD)
  with nfd_table_parts
  have "map_of nfd_table (fst bm) = None \<and> fst bm < 256 \<and> is_Mn (snd bm)" by fastforce
  with assms Some show ?thesis by (cases bm) (auto simp: nfd_cp_def)
qed

lemma remove_accents_chars:
  assumes "d \<in> set (remove_accents ucd s)"
  shows "d \<in> set (uni_nfd ucd s) \<and> \<not> uni_Mn ucd d"
  using assms by (auto simp: remove_accents_def split: if_splits)

lemma uni_nfd_latin1:
  assumes "latin1 s" and "d \<in> set (uni_nfd ucd s)" and "\<not> uni_Mn ucd d"
  shows "d < 256 \<and> map_of nfd_table d = None"
proof -
  from assms(1,2) obtain x where x: "x \<in> set s" "d \<in> set (nfd_cp x)"
    by (auto simp: uni_nfd_def latin1_def)
  from assms(1) x(1) have "x < 256" by (simp add: latin1_def list_all_iff)
  from nfd_cp_chars[OF x(2) this] have "is_Mn d \<or> (d < 256 \<and> map_of nfd_table d = None)" .
  moreover have "\<not> is_Mn d"
  proof
    assume m: "is_Mn d"
    then have "\<not> d < 256" by (simp add: is_Mn_def)
    with m have "uni_Mn ucd d" by (simp add: uni_Mn_def)
    with assms(3) show False by simp
  qed
  ultimately show ?thesis by simp
qed


lemma upper_table: "list_all upper_ok [48..<256]"
  by (simp add: upt_rec_numeral upper_ok_def is_word_def is_digit_def nfd_table_def
      upper_cp_def ref_char_def)

lemma upper_undecomposed:
  assumes "is_word c" "map_of nfd_table c = None" "u \<in> set (upper_cp c)"
  shows "ref_char u"
proof -
  from assms(1) have "c \<in> {48..<256}" by (auto simp: is_word_def is_digit_def)
  then have "c \<in> set [48..<256]" by (simp only: set_upt)
  with upper_table have "upper_ok c" by (simp only: list_all_iff)
  with assms show ?thesis by (simp add: upper_ok_def list_all_iff)
qed

declare nat_digits.simps [simp del]

lemma nat_digits_chars: "c \<in> set (nat_digits n) \<Longrightarrow> 48 \<le> c \<and> c \<le> 57"
proof (induction n rule: nat_digits.induct)
  case (1 n)
  show ?case
  proof (cases "n < 10")
    case True
    with 1(2) show ?thesis by (subst (asm) nat_digits.simps) simp
  next
    case False
    with 1(2) have "c \<in> set (nat_digits (n div 10)) \<or> c = 48 + n mod 10"
      by (subst (asm) nat_digits.simps) auto
    with 1(1)[OF False] show ?thesis by auto
  qed
qed

lemma str_int_chars: "c \<in> set (str_int i) \<Longrightarrow> ref_char c"
  by (auto simp: str_int_def ref_char_def dest: nat_digits_chars split: if_splits)

lemma normalize_chars:
  assumes "c \<in> set (normalize_for_reference ucd s)"
  shows "c = 45 \<or> (\<exists>d. kept_char ucd s d \<and> c \<in> set (uni_upper ucd d))"
proof -
  define A where "A = remove_accents ucd (strip s)"
  define B where "B = re_sub (Sat (\<lambda>c. \<not> (uni_word ucd c \<or> is_space c \<or> c = 45))) [] A"
  define C where "C = re_sub (rplus (Sat is_space)) [45] B"
  define D where "D = strip_chars [45] C"
  from assms have "c \<in> set (upper ucd D)"
    by (auto simp: normalize_for_reference_def A_def B_def C_def D_def split: if_splits)
  then obtain d where d: "d \<in> set D" "c \<in> set (uni_upper ucd d)" by (auto simp: upper_def)
  from d(1) strip_chars_subset have "d \<in> set C" unfolding D_def by blast
  with re_sub_spaces_chars[of 45 B] have "d = 45 \<or> (d \<in> set B \<and> \<not> is_space d)"
    unfolding C_def by blast
  then show ?thesis
  proof
    assume "d = 45" with d(2) show ?thesis by (simp add: uni_upper_def upper_cp_def)
  next
    assume b: "d \<in> set B \<and> \<not> is_space d"
    with re_sub_remove_chars[of "\<lambda>c. \<not> (uni_word ucd c \<or> is_space c \<or> c = 45)" A]
    have a: "d \<in> set A" "uni_word ucd d \<or> d = 45" unfolding B_def by auto
    from a(1) remove_accents_chars[of d ucd "strip s"]
    have u: "d \<in> set (uni_nfd ucd (strip s))" "\<not> uni_Mn ucd d" unfolding A_def by simp_all
    from a(2) show ?thesis
    proof
      assume "uni_word ucd d"
      with u have "kept_char ucd s d" by (simp add: kept_char_def)
      with d(2) show ?thesis by blast
    next
      assume "d = 45" with d(2) show ?thesis by (simp add: uni_upper_def upper_cp_def)
    qed
  qed
qed

lemma kept_char_latin1:
  assumes "latin1 s" and "kept_char ucd s d" and "c \<in> set (uni_upper ucd d)"
  shows "ref_char c"
proof -
  from assms(1) strip_subset[of s] have "latin1 (strip s)"
    by (auto simp: latin1_def list_all_iff)
  from uni_nfd_latin1[OF this, of d ucd] assms(2)
  have d: "d < 256" "map_of nfd_table d = None" by (simp_all add: kept_char_def)
  with assms(2,3) have "is_word d" "c \<in> set (upper_cp d)"
    by (simp_all add: kept_char_def uni_word_def uni_upper_def)
  from upper_undecomposed[OF this(1) d(2) this(2)] show ?thesis .
qed

lemmas eval_reference = nfd_table_def nfd_cp_def is_Mn_def remove_accents_def upper_cp_def
  upper_def normalize_for_reference_def strip_chars_def str_int_def REGION_def
  SOURCE_TYPE_def nat_digits.simps uni_word_def uni_Mn_def uni_nfd_def uni_upper_def

lemma region_token: "normalize_for_reference ucd REGION = str ''BENI-MELLAL-KHENIFRA''"
  by (simp add: eval_text eval_re eval_reference strip_def)

text \<open>
  C6 (amended). The reference is the region token "BENI-MELLAL-KHENIFRA", a hyphen, the
  normalised title, a hyphen and the decimal project identifier, and when this exceeds 100
  characters it is the same with the normalised title alone cut to its first 50 characters;
  so it always ends with a hyphen and the identifier. Every character of the normalised
  title is a hyphen or comes from the upper-case form of a kept character of the title: a
  word character of its canonical decomposition that is no combining mark. For a title
  within U+0000 to U+00FF, every character of the reference is a hyphen, an underscore, an
  ASCII digit or capital letter, or the upper-case form of a Latin-1 word character without
  decomposition: no accented letter remains, while an underscore of the title does.
\<close>

theorem project_reference_shape:
  "make_reference ucd title pid =
     (if 100 < length (str ''BENI-MELLAL-KHENIFRA'' @ [45] @ normalize_for_reference ucd title @
                       [45] @ str_int pid)
      then str ''BENI-MELLAL-KHENIFRA'' @ [45] @ take 50 (normalize_for_reference ucd title) @
           [45] @ str_int pid
      else str ''BENI-MELLAL-KHENIFRA'' @ [45] @ normalize_for_reference ucd title @
           [45] @ str_int pid) \<and>
   (\<exists>pre. make_reference ucd title pid = pre @ [45] @ str_int pid) \<and>
   (\<forall>c \<in> set (normalize_for_reference ucd title).
      c = 45 \<or> (\<exists>d. kept_char ucd title d \<and> c \<in> set (uni_upper ucd d))) \<and>
   (latin1 title \<longrightarrow> (\<forall>c \<in> set (make_reference ucd title pid). ref_char c)) \<and>
   project_row ucd pid flds side ''project_reference'' =
     Some (StrV (make_reference ucd (get_or (f_project_title flds) (str ''Projet Sans Titre'')) pid))"
proof -
  let ?R = "str ''BENI-MELLAL-KHENIFRA''"
  let ?T = "normalize_for_reference ucd title"
  have shape: "make_reference ucd title pid =
     (if 100 < length (?R @ [45] @ ?T @ [45] @ str_int pid)
      then ?R @ [45] @ take 50 ?T @ [45] @ str_int pid
      else ?R @ [45] @ ?T @ [45] @ str_int pid)"
    by (simp add: make_reference_def Let_def region_token)
  then have "make_reference ucd title pid = (?R @ [45] @ take 50 ?T) @ [45] @ str_int pid \<or>
      make_reference ucd title pid = (?R @ [45] @ ?T) @ [45] @ str_int pid"
    by (simp split: if_splits)
  then have suffix: "\<exists>pre. make_reference ucd title pid = pre @ [45] @ str_int pid" by blast
  have src: "c = 45 \<or> (\<exists>d. kept_char ucd title d \<and> c \<in> set (uni_upper ucd d))"
    if "c \<in> set ?T" for c
    using that by (rule normalize_chars)
  have region: "list_all ref_char ?R" by (simp add: str_def ref_char_def)
  have chars: "ref_char c" if l: "latin1 title" and c: "c \<in> set (make_reference ucd title pid)" for c
  proof -
    from c shape have "c \<in> set ?R \<or> c = 45 \<or> c \<in> set ?T \<or> c \<in> set (str_int pid)"
      by (auto dest: in_set_takeD split: if_splits)
    moreover have "ref_char c" if "c \<in> set ?R"
      using region that by (simp only: list_all_iff)
    moreover have "ref_char c" if "c \<in> set ?T"
      using src[OF that] kept_char_latin1[OF l] by (auto simp: ref_char_def)
    ultimately show ?thesis
      by (auto dest: str_int_chars simp: ref_char_def)
  qed
  from shape suffix src chars show ?thesis by (simp add: row_lookup)
qed

theorem project_reference_shape_witness:
  "\<forall>ucd.
     latin1 title_unite \<and>
     make_reference ucd title_unite 12 = str ''BENI-MELLAL-KHENIFRA-UNITE-DE-TRI-12'' \<and>
     list_all ref_char (make_reference ucd title_unite 12) \<and>
     100 < length (str ''BENI-MELLAL-KHENIFRA'' @ [45] @ normalize_for_reference ucd long_title @
                   [45] @ str_int 3) \<and>
     make_reference ucd long_title 3 =
       str ''BENI-MELLAL-KHENIFRA-UNITE-DE-PRODUCTION-ET-DE-CONDITIONNEMENT-DES-HUIL-3''"
proof
  fix ucd
  have n: "normalize_for_reference ucd title_unite = str ''UNITE-DE-TRI''"
    by (simp add: title_unite_def eval_text eval_re eval_reference strip_def)
  have i: "str_int 12 = str ''12''" "str_int 3 = str ''3''"
    by (simp_all add: str_int_def str_def nat_digits.simps)
  have u: "latin1 title_unite" by (simp add: latin1_def title_unite_def str_def)
  have l: "normalize_for_reference ucd long_title =
      str ''UNITE-DE-PRODUCTION-ET-DE-CONDITIONNEMENT-DES-HUILES-ESSENTIELLES-ET-PLANTES-AROMATIQUES''"
    by (simp add: long_title_def eval_text eval_re eval_reference strip_def)
  have k: "100 < length (str ''BENI-MELLAL-KHENIFRA'' @ [45] @ normalize_for_reference ucd long_title @
                   [45] @ str_int 3)"
    unfolding l i by (simp add: str_def)
  from project_reference_shape[of ucd title_unite 12] u
  have m: "make_reference ucd title_unite 12 = str ''BENI-MELLAL-KHENIFRA-UNITE-DE-TRI-12''"
    and a: "list_all ref_char (make_reference ucd title_unite 12)"
    unfolding n i by (simp_all add: list_all_iff str_def)
  from project_reference_shape[of ucd long_title 3] k
  have t: "make_reference ucd long_title 3 =
       str ''BENI-MELLAL-KHENIFRA-UNITE-DE-PRODUCTION-ET-DE-CONDITIONNEMENT-DES-HUIL-3''"
    unfolding l i by (simp add: str_def)
  from u m a k t
  show "latin1 title_unite \<and>
     make_reference ucd title_unite 12 = str ''BENI-MELLAL-KHENIFRA-UNITE-DE-TRI-12'' \<and>
     list_all ref_char (make_reference ucd title_unite 12) \<and>
     100 < length (str ''BENI-MELLAL-KHENIFRA'' @ [45] @ normalize_for_reference ucd long_title @
                   [45] @ str_int 3) \<and>
     make_reference ucd long_title 3 =
       str ''BENI-MELLAL-KHENIFRA-UNITE-DE-PRODUCTION-ET-DE-CONDITIONNEMENT-DES-HUIL-3''"
    by simp
qed

text \<open>
  C6 as stated fails: a document named "a\_b.pdf" whose text has no project-number marker
  takes its title from the file name, and its reference keeps the underscore, a character
  outside A-Z, 0-9 and the hyphen.
\<close>

theorem underscore_in_reference:
  "\<forall>ucd.
     (\<exists>r. process_one_pdf ucd doc_underscore 7 = Some r \<and>
          r ''project_reference'' = Some (StrV (str ''BENI-MELLAL-KHENIFRA-A_B-7''))) \<and>
     \<not> list_all claimed_ref_char (str ''BENI-MELLAL-KHENIFRA-A_B-7'')"
proof
  fix ucd
  let ?r = "project_row ucd 7 (extract_fields (doc_name doc_underscore) (doc_layout doc_underscore)) (doc_side doc_underscore)"
  have p: "process_one_pdf ucd doc_underscore 7 = Some ?r"
    by (simp add: process_one_pdf_def doc_underscore_def str_def)
  have t: "extract_project_title (str ''Fiche'') (str ''a_b.pdf'') = str ''a_b''"
    by (simp add: eval_text eval_re eval_locator replace_char_def)
  have n: "normalize_for_reference ucd (str ''a_b'') = str ''A_B''"
    by (simp add: eval_text eval_re eval_reference strip_def)
  have i: "str_int 7 = str ''7''"
    by (simp add: str_int_def str_def nat_digits.simps)
  have m: "make_reference ucd (str ''a_b'') 7 = str ''BENI-MELLAL-KHENIFRA-A_B-7''"
    by (simp add: make_reference_def Let_def n i region_token) (simp add: str_def)
  have "?r ''project_reference'' = Some (StrV (str ''BENI-MELLAL-KHENIFRA-A_B-7''))"
    by (simp add: row_lookup f_title get_or_def doc_underscore_def t m)
  moreover have "\<not> list_all claimed_ref_char (str ''BENI-MELLAL-KHENIFRA-A_B-7'')"
    by (simp add: claimed_ref_char_def str_def)
  ultimately show "(\<exists>r. process_one_pdf ucd doc_underscore 7 = Some r \<and>
          r ''project_reference'' = Some (StrV (str ''BENI-MELLAL-KHENIFRA-A_B-7''))) \<and>
     \<not> list_all claimed_ref_char (str ''BENI-MELLAL-KHENIFRA-A_B-7'')"
    using p by blast
qed


end
